theory Spec2Isabelle
  imports Main "HOL-Library.AList" "HOL-Library.Sublist"
begin

section \<open>Python exceptions\<close>

text \<open>
  The exception classes that \<^verbatim>\<open>setup_datasets.py\<close> names in an \<^verbatim>\<open>except\<close> clause, the ones
  its own filesystem calls raise, and the ones its collaborators (\<^verbatim>\<open>urllib\<close>, \<^verbatim>\<open>zipfile\<close>,
  the \<^verbatim>\<open>kaggle\<close> package) are known to raise. \<open>OtherException\<close> stands for any further class
  deriving directly from \<^verbatim>\<open>Exception\<close>.
\<close>

datatype exc_class =
    BaseException | KeyboardInterrupt | SystemExit | Exception
  | ArithmeticError | ZeroDivisionError | ValueError
  | ImportError | ModuleNotFoundError
  | OSError | FileExistsError | FileNotFoundError | IsADirectoryError
  | NotADirectoryError | PermissionError
  | URLError | HTTPError | ContentTooShortError
  | BadZipFile
  | OtherException string

text \<open>The method resolution order of each class: the class itself and all its bases.\<close>

fun mro :: "exc_class \<Rightarrow> exc_class list" where
  "mro BaseException = [BaseException]"
| "mro KeyboardInterrupt = [KeyboardInterrupt, BaseException]"
| "mro SystemExit = [SystemExit, BaseException]"
| "mro Exception = [Exception, BaseException]"
| "mro ArithmeticError = [ArithmeticError, Exception, BaseException]"
| "mro ZeroDivisionError = [ZeroDivisionError, ArithmeticError, Exception, BaseException]"
| "mro ValueError = [ValueError, Exception, BaseException]"
| "mro ImportError = [ImportError, Exception, BaseException]"
| "mro ModuleNotFoundError = [ModuleNotFoundError, ImportError, Exception, BaseException]"
| "mro OSError = [OSError, Exception, BaseException]"
| "mro FileExistsError = [FileExistsError, OSError, Exception, BaseException]"
| "mro FileNotFoundError = [FileNotFoundError, OSError, Exception, BaseException]"
| "mro IsADirectoryError = [IsADirectoryError, OSError, Exception, BaseException]"
| "mro NotADirectoryError = [NotADirectoryError, OSError, Exception, BaseException]"
| "mro PermissionError = [PermissionError, OSError, Exception, BaseException]"
| "mro URLError = [URLError, OSError, Exception, BaseException]"
| "mro HTTPError = [HTTPError, URLError, OSError, Exception, BaseException]"
| "mro ContentTooShortError = [ContentTooShortError, URLError, OSError, Exception, BaseException]"
| "mro BadZipFile = [BadZipFile, Exception, BaseException]"
| "mro (OtherException n) = [OtherException n, Exception, BaseException]"

definition issubclass :: "exc_class \<Rightarrow> exc_class \<Rightarrow> bool" where
  "issubclass c d = (d \<in> set (mro c))"

text \<open>An exception object: its class and what \<^verbatim>\<open>str(e)\<close> gives.\<close>

datatype exn = Exn (exn_class: exc_class) (exn_str: string)

definition isinstance :: "exn \<Rightarrow> exc_class \<Rightarrow> bool" where
  "isinstance e d = issubclass (exn_class e) d"

section \<open>Strings\<close>

definition newline :: string where
  "newline = [CHR 0x0A]"

definition carriage_return :: string where
  "carriage_return = [CHR 0x0D]"

text \<open>
  \<^verbatim>\<open>str.center(width)\<close> with the fill character space, as CPython pads: a string at least
  as long as the width is returned as it is, otherwise the left margin is
  \<^verbatim>\<open>marg // 2 + (marg & width & 1)\<close>.
\<close>

definition center :: "nat \<Rightarrow> string \<Rightarrow> string" where
  "center width s =
     (if width \<le> length s then s
      else let marg = width - length s;
               left = marg div 2 + (if odd marg \<and> odd width then 1 else 0)
           in replicate left CHR '' '' @ s @ replicate (marg - left) CHR '' '')"

fun show_nat :: "nat \<Rightarrow> string" where
  "show_nat n =
     (if n < 10 then [''0123456789'' ! n]
      else show_nat (n div 10) @ [''0123456789'' ! (n mod 10)])"

declare show_nat.simps [simp del]

definition show_int :: "int \<Rightarrow> string" where
  "show_int i = (if i < 0 then ''-'' @ show_nat (nat (- i)) else show_nat (nat i))"

text \<open>Joining strings with a separator, \<^verbatim>\<open>sep.join(parts)\<close>.\<close>

fun join :: "string \<Rightarrow> string list \<Rightarrow> string" where
  "join sep [] = []"
| "join sep [x] = x"
| "join sep (x # y # ys) = x @ sep @ join sep (y # ys)"

section \<open>Paths and the filesystem\<close>

text \<open>
  A relative POSIX path is the list of its components. \<open>Path\<close> parses a string the way
  \<^verbatim>\<open>pathlib.Path\<close> does for the relative paths of the script: it splits at \<^verbatim>\<open>/\<close> and drops
  empty and \<^verbatim>\<open>.\<close> components. \<open>joinpath\<close> is the operator \<^verbatim>\<open>/\<close> of \<^verbatim>\<open>pathlib\<close>.
\<close>

type_synonym path = "string list"

fun split_sep :: "char \<Rightarrow> string \<Rightarrow> string list" where
  "split_sep c [] = [[]]"
| "split_sep c (x # xs) =
     (if x = c then [] # split_sep c xs
      else (case split_sep c xs of
              [] \<Rightarrow> [[x]]
            | y # ys \<Rightarrow> (x # y) # ys))"

definition Path :: "string \<Rightarrow> path" where
  "Path s = filter (\<lambda>c. c \<noteq> [] \<and> c \<noteq> ''.'') (split_sep CHR ''/'' s)"

definition joinpath :: "path \<Rightarrow> string \<Rightarrow> path" where
  "joinpath p s = p @ Path s"

definition path_str :: "path \<Rightarrow> string" where
  "path_str p = (if p = [] then ''.'' else join ''/'' p)"

text \<open>
  The filesystem below the working directory is a tree: a regular file (its content plays
  no role in the script) or a directory with its entries. The state of the filesystem is
  the node of the working directory.
\<close>

datatype node = File | Dir "(string \<times> node) list"

datatype errno = ENOENT | ENOTDIR

text \<open>Path resolution, as \<^verbatim>\<open>stat\<close> does it: what is at the path, or why nothing is.\<close>

fun resolve :: "node \<Rightarrow> path \<Rightarrow> errno + node" where
  "resolve n [] = Inr n"
| "resolve File (c # cs) = Inl ENOTDIR"
| "resolve (Dir es) (c # cs) =
     (case map_of es c of
        None \<Rightarrow> Inl ENOENT
      | Some ch \<Rightarrow> resolve ch cs)"

text \<open>\<^verbatim>\<open>Path.exists()\<close>: \<^verbatim>\<open>ENOENT\<close> and \<^verbatim>\<open>ENOTDIR\<close> are swallowed and give \<^verbatim>\<open>False\<close>.\<close>

definition path_exists :: "node \<Rightarrow> path \<Rightarrow> bool" where
  "path_exists f p = (case resolve f p of Inr n \<Rightarrow> True | Inl e \<Rightarrow> False)"

definition is_dir :: "node \<Rightarrow> path \<Rightarrow> bool" where
  "is_dir f p = (case resolve f p of Inr (Dir es) \<Rightarrow> True | _ \<Rightarrow> False)"

definition os_error :: "exc_class \<Rightarrow> string \<Rightarrow> path \<Rightarrow> exn" where
  "os_error c msg p = Exn c (msg @ '': '' @ [CHR 0x27] @ path_str p @ [CHR 0x27])"

definition file_exists_error :: "path \<Rightarrow> exn" where
  "file_exists_error p = os_error FileExistsError ''[Errno 17] File exists'' p"

definition file_not_found_error :: "path \<Rightarrow> exn" where
  "file_not_found_error p = os_error FileNotFoundError ''[Errno 2] No such file or directory'' p"

definition not_a_directory_error :: "path \<Rightarrow> exn" where
  "not_a_directory_error p = os_error NotADirectoryError ''[Errno 20] Not a directory'' p"

definition is_a_directory_error :: "path \<Rightarrow> exn" where
  "is_a_directory_error p = os_error IsADirectoryError ''[Errno 21] Is a directory'' p"

text \<open>
  \<^verbatim>\<open>Path.iterdir()\<close> consumed by \<^verbatim>\<open>any(...)\<close>: the names in a directory; an error when the
  path is missing or is not a directory.
\<close>

definition iterdir :: "node \<Rightarrow> path \<Rightarrow> exn + string list" where
  "iterdir f p =
     (case resolve f p of
        Inr (Dir es) \<Rightarrow> Inr (map fst es)
      | Inr File \<Rightarrow> Inl (not_a_directory_error p)
      | Inl ENOENT \<Rightarrow> Inl (file_not_found_error p)
      | Inl ENOTDIR \<Rightarrow> Inl (not_a_directory_error p))"

text \<open>Writing a node at a path whose parent directory exists, and removing one.\<close>

fun put :: "node \<Rightarrow> path \<Rightarrow> node \<Rightarrow> node" where
  "put new [] n = new"
| "put new (c # cs) File = File"
| "put new (c # cs) (Dir es) =
     (if cs = [] then Dir (AList.update c new es)
      else (case map_of es c of
              None \<Rightarrow> Dir es
            | Some ch \<Rightarrow> Dir (AList.update c (put new cs ch) es)))"

fun remove :: "path \<Rightarrow> node \<Rightarrow> node" where
  "remove [] n = n"
| "remove (c # cs) File = File"
| "remove (c # cs) (Dir es) =
     (if cs = [] then Dir (AList.delete c es)
      else (case map_of es c of
              None \<Rightarrow> Dir es
            | Some ch \<Rightarrow> Dir (AList.update c (remove cs ch) es)))"

text \<open>\<^verbatim>\<open>os.mkdir(path)\<close>: one level, the parent must be a directory, the path must be free.\<close>

definition os_mkdir :: "node \<Rightarrow> path \<Rightarrow> exn + node" where
  "os_mkdir f p =
     (case resolve f p of
        Inr n \<Rightarrow> Inl (file_exists_error p)
      | Inl ENOTDIR \<Rightarrow> Inl (not_a_directory_error p)
      | Inl ENOENT \<Rightarrow>
          (case resolve f (butlast p) of
             Inr (Dir es) \<Rightarrow> Inr (put (Dir []) p f)
           | Inr File \<Rightarrow> Inl (not_a_directory_error p)
           | Inl e \<Rightarrow> Inl (file_not_found_error p)))"

text \<open>
  \<^verbatim>\<open>Path.mkdir(parents, exist_ok)\<close> as \<^verbatim>\<open>pathlib\<close> implements it: try \<^verbatim>\<open>os.mkdir\<close>; on
  \<^verbatim>\<open>FileNotFoundError\<close> create the parent first (when \<^verbatim>\<open>parents\<close> is set) and try again; on
  any other \<^verbatim>\<open>OSError\<close> re-raise unless \<^verbatim>\<open>exist_ok\<close> is set and the path is a directory.
\<close>

function mkdir :: "bool \<Rightarrow> bool \<Rightarrow> path \<Rightarrow> node \<Rightarrow> exn + node" where
  "mkdir parents exist_ok p f =
     (case os_mkdir f p of
        Inr f' \<Rightarrow> Inr f'
      | Inl e \<Rightarrow>
          if isinstance e FileNotFoundError then
            (if \<not> parents \<or> p = [] then Inl e
             else (case mkdir True True (butlast p) f of
                     Inl e' \<Rightarrow> Inl e'
                   | Inr f1 \<Rightarrow> mkdir False exist_ok p f1))
          else (if \<not> exist_ok \<or> \<not> is_dir f p then Inl e else Inr f))"
  by pat_completeness auto
termination
  by (relation "measures [\<lambda>(parents, exist_ok, p, f). length p,
                          \<lambda>(parents, exist_ok, p, f). if parents then 1 else 0]") auto

declare mkdir.simps [simp del]

text \<open>
  \<^verbatim>\<open>Path.unlink()\<close>: removes a regular file; a directory cannot be unlinked (the error is
  the one of Linux, \<^verbatim>\<open>IsADirectoryError\<close>).
\<close>

definition unlink :: "node \<Rightarrow> path \<Rightarrow> exn + node" where
  "unlink f p =
     (case resolve f p of
        Inr File \<Rightarrow> Inr (remove p f)
      | Inr (Dir es) \<Rightarrow> Inl (is_a_directory_error p)
      | Inl ENOENT \<Rightarrow> Inl (file_not_found_error p)
      | Inl ENOTDIR \<Rightarrow> Inl (not_a_directory_error p))"

section \<open>Program state and control flow\<close>

text \<open>
  What a run can change or observe: the filesystem below the working directory, what was
  written to standard output (one element per \<^verbatim>\<open>write\<close>), the trace of the calls that
  write to the filesystem or leave the process (with their outcome, \<open>None\<close> for a normal
  return), and the state of everything outside the script (network, servers, the
  credentials in the home directory), of which nothing is assumed.
\<close>

datatype event =
    Mkdir path "exn option"
  | Unlink path "exn option"
  | Urlretrieve string path "exn option"
  | Extractall path path "exn option"
  | ImportKaggle "exn option"
  | DatasetDownloadFiles string string "exn option"

record 'x world =
  fs :: node
  stdout :: "string list"
  trace :: "event list"
  ext :: 'x

text \<open>
  The collaborators of the script. Each takes its arguments, the filesystem and the outside
  state and answers with its outcome (\<open>Some e\<close> when it raises \<open>e\<close>), the filesystem it
  leaves and the new outside state. \<open>net_urlretrieve\<close> also answers the calls
  \<^verbatim>\<open>(count, block_size, total_size)\<close> it makes to the report hook; when the hook raises, the
  transfer stops there and the filesystem answered is the one of that moment.
\<close>

record 'x env =
  net_urlretrieve :: "string \<Rightarrow> path \<Rightarrow> node \<Rightarrow> 'x \<Rightarrow> (int \<times> int \<times> int) list \<times> exn option \<times> node \<times> 'x"
  zip_extractall :: "path \<Rightarrow> path \<Rightarrow> node \<Rightarrow> 'x \<Rightarrow> exn option \<times> node \<times> 'x"
  kaggle_import :: "'x \<Rightarrow> exn option \<times> 'x"
  kaggle_download :: "string \<Rightarrow> string \<Rightarrow> node \<Rightarrow> 'x \<Rightarrow> exn option \<times> node \<times> 'x"

text \<open>A statement or call: from a state to a value or a raised exception, and the new state.\<close>

type_synonym ('a, 'x) prog = "'x world \<Rightarrow> (exn + 'a) \<times> 'x world"

definition return :: "'a \<Rightarrow> ('a, 'x) prog" where
  "return v w = (Inr v, w)"

definition raise :: "exn \<Rightarrow> ('a, 'x) prog" where
  "raise e w = (Inl e, w)"

definition andThen :: "('a, 'x) prog \<Rightarrow> ('a \<Rightarrow> ('b, 'x) prog) \<Rightarrow> ('b, 'x) prog" where
  "andThen m k w = (case m w of (Inl e, w') \<Rightarrow> (Inl e, w') | (Inr v, w') \<Rightarrow> k v w')"

definition seq :: "(unit, 'x) prog \<Rightarrow> ('b, 'x) prog \<Rightarrow> ('b, 'x) prog" where
  "seq m n = andThen m (\<lambda>u. n)"

fun block :: "(unit, 'x) prog list \<Rightarrow> (unit, 'x) prog" where
  "block [] = return ()"
| "block (m # ms) = seq m (block ms)"

fun for_each :: "('a \<Rightarrow> (unit, 'x) prog) \<Rightarrow> 'a list \<Rightarrow> (unit, 'x) prog" where
  "for_each body [] = return ()"
| "for_each body (x # xs) = seq (body x) (for_each body xs)"

text \<open>
  \<^verbatim>\<open>try: ... except C1: ... except C2: ...\<close>: the first clause whose class the exception is an
  instance of handles it; an exception no clause matches goes on to the caller.
\<close>

fun find_handler :: "(exc_class \<times> 'h) list \<Rightarrow> exn \<Rightarrow> 'h option" where
  "find_handler [] e = None"
| "find_handler ((c, h) # hs) e = (if isinstance e c then Some h else find_handler hs e)"

definition try_except ::
  "('a, 'x) prog \<Rightarrow> (exc_class \<times> (exn \<Rightarrow> ('a, 'x) prog)) list \<Rightarrow> ('a, 'x) prog" where
  "try_except m hs w =
     (case m w of
        (Inr v, w') \<Rightarrow> (Inr v, w')
      | (Inl e, w') \<Rightarrow>
          (case find_handler hs e of
             None \<Rightarrow> (Inl e, w')
           | Some h \<Rightarrow> h e w'))"

subsection \<open>Output\<close>

definition sys_stdout_write :: "string \<Rightarrow> (unit, 'x) prog" where
  "sys_stdout_write s w = (Inr (), w\<lparr>stdout := stdout w @ [s]\<rparr>)"

definition print :: "string \<Rightarrow> (unit, 'x) prog" where
  "print s = sys_stdout_write (s @ newline)"

definition print_header :: "string \<Rightarrow> (unit, 'x) prog" where
  "print_header text =
     block [print (newline @ replicate 70 CHR ''=''),
            print (center 70 text),
            print (replicate 70 CHR ''='' @ newline)]"

definition print_success :: "string \<Rightarrow> (unit, 'x) prog" where
  "print_success text = print (''[OK] '' @ text)"

definition print_info :: "string \<Rightarrow> (unit, 'x) prog" where
  "print_info text = print (''[INFO] '' @ text)"

definition print_warning :: "string \<Rightarrow> (unit, 'x) prog" where
  "print_warning text = print (''[WARNING] '' @ text)"

definition print_error :: "string \<Rightarrow> (unit, 'x) prog" where
  "print_error text = print (''[ERROR] '' @ text)"

subsection \<open>Filesystem calls of the script\<close>

definition get_fs :: "(node, 'x) prog" where
  "get_fs w = (Inr (fs w), w)"

definition path_mkdir :: "bool \<Rightarrow> bool \<Rightarrow> path \<Rightarrow> (unit, 'x) prog" where
  "path_mkdir parents exist_ok p w =
     (case mkdir parents exist_ok p (fs w) of
        Inl e \<Rightarrow> (Inl e, w\<lparr>trace := trace w @ [Mkdir p (Some e)]\<rparr>)
      | Inr f' \<Rightarrow> (Inr (), w\<lparr>fs := f', trace := trace w @ [Mkdir p None]\<rparr>))"

definition path_unlink :: "path \<Rightarrow> (unit, 'x) prog" where
  "path_unlink p w =
     (case unlink (fs w) p of
        Inl e \<Rightarrow> (Inl e, w\<lparr>trace := trace w @ [Unlink p (Some e)]\<rparr>)
      | Inr f' \<Rightarrow> (Inr (), w\<lparr>fs := f', trace := trace w @ [Unlink p None]\<rparr>))"

definition path_iterdir :: "path \<Rightarrow> (string list, 'x) prog" where
  "path_iterdir p w = (case iterdir (fs w) p of Inl e \<Rightarrow> (Inl e, w) | Inr ns \<Rightarrow> (Inr ns, w))"

text \<open>
  The skip test \<^verbatim>\<open>p.exists() and any(p.iterdir())\<close>, written twice in the script (lines 115
  and 149). \<^verbatim>\<open>and\<close> evaluates \<^verbatim>\<open>iterdir\<close> only when the path exists; a \<^verbatim>\<open>Path\<close> object is
  always true, so \<^verbatim>\<open>any\<close> asks whether there is an entry at all.
\<close>

definition exists_and_any_iterdir :: "path \<Rightarrow> (bool, 'x) prog" where
  "exists_and_any_iterdir p =
     andThen get_fs (\<lambda>f.
       if path_exists f p then andThen (path_iterdir p) (\<lambda>ns. return (ns \<noteq> []))
       else return False)"

subsection \<open>Calls that leave the process\<close>

fun run_hooks :: "(int \<Rightarrow> int \<Rightarrow> int \<Rightarrow> (unit, 'x) prog) \<Rightarrow> (int \<times> int \<times> int) list \<Rightarrow> (unit, 'x) prog" where
  "run_hooks hook [] = return ()"
| "run_hooks hook ((count, block_size, total_size) # cs) =
     seq (hook count block_size total_size) (run_hooks hook cs)"

definition urlretrieve ::
  "'x env \<Rightarrow> string \<Rightarrow> path \<Rightarrow> (int \<Rightarrow> int \<Rightarrow> int \<Rightarrow> (unit, 'x) prog) \<Rightarrow> (unit, 'x) prog" where
  "urlretrieve env url filename hook w =
     (case net_urlretrieve env url filename (fs w) (ext w) of
        (calls, res, f', x') \<Rightarrow>
          (case run_hooks hook calls (w\<lparr>fs := f', ext := x'\<rparr>) of
             (Inl e, w') \<Rightarrow> (Inl e, w'\<lparr>trace := trace w' @ [Urlretrieve url filename (Some e)]\<rparr>)
           | (Inr u, w') \<Rightarrow>
               (case res of
                  Some e \<Rightarrow> (Inl e, w'\<lparr>trace := trace w' @ [Urlretrieve url filename (Some e)]\<rparr>)
                | None \<Rightarrow> (Inr (), w'\<lparr>trace := trace w' @ [Urlretrieve url filename None]\<rparr>))))"

definition extractall :: "'x env \<Rightarrow> path \<Rightarrow> path \<Rightarrow> (unit, 'x) prog" where
  "extractall env zip_path extract_to w =
     (case zip_extractall env zip_path extract_to (fs w) (ext w) of
        (res, f', x') \<Rightarrow>
          (case res of
             Some e \<Rightarrow> (Inl e, w\<lparr>fs := f', ext := x',
                                  trace := trace w @ [Extractall zip_path extract_to (Some e)]\<rparr>)
           | None \<Rightarrow> (Inr (), w\<lparr>fs := f', ext := x',
                                 trace := trace w @ [Extractall zip_path extract_to None]\<rparr>)))"

definition import_kaggle :: "'x env \<Rightarrow> (unit, 'x) prog" where
  "import_kaggle env w =
     (case kaggle_import env (ext w) of
        (res, x') \<Rightarrow>
          (case res of
             Some e \<Rightarrow> (Inl e, w\<lparr>ext := x', trace := trace w @ [ImportKaggle (Some e)]\<rparr>)
           | None \<Rightarrow> (Inr (), w\<lparr>ext := x', trace := trace w @ [ImportKaggle None]\<rparr>)))"

definition dataset_download_files :: "'x env \<Rightarrow> string \<Rightarrow> string \<Rightarrow> (unit, 'x) prog" where
  "dataset_download_files env dataset_id path w =
     (case kaggle_download env dataset_id path (fs w) (ext w) of
        (res, f', x') \<Rightarrow>
          (case res of
             Some e \<Rightarrow> (Inl e, w\<lparr>fs := f', ext := x',
                                  trace := trace w @ [DatasetDownloadFiles dataset_id path (Some e)]\<rparr>)
           | None \<Rightarrow> (Inr (), w\<lparr>fs := f', ext := x',
                                 trace := trace w @ [DatasetDownloadFiles dataset_id path None]\<rparr>)))"

section \<open>The script \<^verbatim>\<open>setup_datasets.py\<close>\<close>

subsection \<open>Transport primitives\<close>

text \<open>
  The quotient of \<^verbatim>\<open>int(count * block_size * 100 / total_size)\<close> is truncated towards zero;
  it is computed exactly here (the rounding of the float division is not modelled). A
  total size of zero raises \<^verbatim>\<open>ZeroDivisionError\<close>.
\<close>

definition int_trunc_div :: "int \<Rightarrow> int \<Rightarrow> int" where
  "int_trunc_div a b = sgn a * sgn b * (\<bar>a\<bar> div \<bar>b\<bar>)"

definition reporthook :: "int \<Rightarrow> int \<Rightarrow> int \<Rightarrow> (unit, 'x) prog" where
  "reporthook count block_size total_size =
     (if total_size = 0 then raise (Exn ZeroDivisionError ''division by zero'')
      else sys_stdout_write
             (carriage_return @ ''  Progress: ''
               @ show_int (int_trunc_div (count * block_size * 100) total_size) @ ''% ''))"

definition download_file :: "'x env \<Rightarrow> string \<Rightarrow> path \<Rightarrow> string \<Rightarrow> (bool, 'x) prog" where
  "download_file env url destination description =
     seq (print_info (''Downloading '' @ description @ ''...''))
       (try_except
          (seq (urlretrieve env url destination reporthook)
          (seq (print [])
          (seq (print_success (''Downloaded '' @ description))
               (return True))))
          [(Exception, \<lambda>e.
              seq (print_error (''Failed to download '' @ description @ '': '' @ exn_str e))
                  (return False))])"

definition extract_zip :: "'x env \<Rightarrow> path \<Rightarrow> path \<Rightarrow> string \<Rightarrow> (bool, 'x) prog" where
  "extract_zip env zip_path extract_to description =
     seq (print_info (''Extracting '' @ description @ ''...''))
       (try_except
          (seq (extractall env zip_path extract_to)
          (seq (print_success (''Extracted '' @ description))
               (return True)))
          [(Exception, \<lambda>e.
              seq (print_error (''Failed to extract '' @ description @ '': '' @ exn_str e))
                  (return False))])"

subsection \<open>MovieLens: direct download\<close>

text \<open>An entry of the table \<^verbatim>\<open>movielens_datasets\<close>; the fields are the keys of the dictionary.\<close>

record dataset =
  ds_name :: string
  ds_url :: string
  ds_filename :: string
  ds_extract_dir :: string

definition movielens_datasets :: "dataset list" where
  "movielens_datasets =
     [\<lparr>ds_name = ''MovieLens 1M'',
       ds_url = ''https://files.grouplens.org/datasets/movielens/ml-1m.zip'',
       ds_filename = ''ml-1m.zip'',
       ds_extract_dir = ''ml-1m''\<rparr>,
      \<lparr>ds_name = ''MovieLens 25M'',
       ds_url = ''https://files.grouplens.org/datasets/movielens/ml-25m.zip'',
       ds_filename = ''ml-25m.zip'',
       ds_extract_dir = ''ml-25m''\<rparr>]"

text \<open>The body of the loop of \<^verbatim>\<open>setup_movielens\<close> (lines 112 to 128); \<^verbatim>\<open>continue\<close> ends it.\<close>

definition setup_movielens_item :: "'x env \<Rightarrow> path \<Rightarrow> dataset \<Rightarrow> (unit, 'x) prog" where
  "setup_movielens_item env datasets_dir dataset =
     (let extract_path = joinpath datasets_dir (ds_extract_dir dataset) in
      andThen (exists_and_any_iterdir extract_path) (\<lambda>already.
        if already then print_warning (ds_name dataset @ '' already exists. Skipping...'')
        else
          (let zip_path = joinpath datasets_dir (ds_filename dataset) in
           andThen (download_file env (ds_url dataset) zip_path (ds_name dataset)) (\<lambda>downloaded.
             if \<not> downloaded then return ()
             else
               andThen (extract_zip env zip_path datasets_dir (ds_name dataset)) (\<lambda>extracted.
                 if extracted then
                   seq (path_unlink zip_path)
                       (print_success (ds_name dataset @ '' setup complete''))
                 else return ())))))"

definition setup_movielens :: "'x env \<Rightarrow> (unit, 'x) prog" where
  "setup_movielens env =
     (let datasets_dir = Path ''datasets/MovieLens'' in
      seq (print_header ''MovieLens Datasets'')
     (seq (path_mkdir True True datasets_dir)
          (for_each (setup_movielens_item env datasets_dir) movielens_datasets)))"

subsection \<open>Kaggle: credential probe and mediated download\<close>

definition check_kaggle_api :: "'x env \<Rightarrow> (bool, 'x) prog" where
  "check_kaggle_api env =
     try_except
       (seq (import_kaggle env)
       (seq (print_success ''Kaggle API is configured'')
            (return True)))
       [(OSError, \<lambda>e. seq (print_error ''Kaggle API credentials not found'') (return False)),
        (ImportError, \<lambda>e. seq (print_error ''Kaggle package not installed'') (return False))]"

definition check_dataset_exists :: "string \<Rightarrow> string \<Rightarrow> (bool, 'x) prog" where
  "check_dataset_exists path dataset_name =
     (let dataset_path = Path path in
      andThen (exists_and_any_iterdir dataset_path) (\<lambda>already.
        if already then seq (print_success (dataset_name @ '': Already exists'')) (return True)
        else return False))"

definition setup_kaggle_dataset :: "'x env \<Rightarrow> string \<Rightarrow> string \<Rightarrow> string \<Rightarrow> (bool, 'x) prog" where
  "setup_kaggle_dataset env dataset_id extract_to dataset_name =
     try_except
       (seq (import_kaggle env)
       (let extract_path = Path extract_to in
        seq (path_mkdir True True extract_path)
       (seq (print_info (''Downloading '' @ dataset_name @ '' from Kaggle...''))
       (seq (dataset_download_files env dataset_id extract_to)
       (seq (print_success (dataset_name @ '' downloaded and extracted''))
            (return True))))))
       [(Exception, \<lambda>e.
           seq (print_error (''Failed to download '' @ dataset_name @ '': '' @ exn_str e))
               (return False))]"

text \<open>An \<^verbatim>\<open>if\<close> statement without \<^verbatim>\<open>else\<close>.\<close>

definition if_then :: "bool \<Rightarrow> (unit, 'x) prog \<Rightarrow> (unit, 'x) prog" where
  "if_then b m = (if b then m else return ())"

text \<open>A call as a statement: the value returned is dropped.\<close>

definition discard :: "('a, 'x) prog \<Rightarrow> (unit, 'x) prog" where
  "discard m = andThen m (\<lambda>r. return ())"

definition setup_netflix_datasets :: "'x env \<Rightarrow> bool \<Rightarrow> (unit, 'x) prog" where
  "setup_netflix_datasets env has_kaggle =
     seq (print_header ''Netflix Datasets'')
    (andThen (check_dataset_exists ''datasets/Netflix/netflix'' ''Netflix Shows'')
       (\<lambda>netflix_shows_exists.
     andThen (check_dataset_exists ''datasets/Netflix/netflix_prize'' ''Netflix Prize'')
       (\<lambda>netflix_prize_exists.
     if netflix_shows_exists \<and> netflix_prize_exists then return ()
     else if \<not> has_kaggle then
       block
         [print_warning ''Kaggle API not configured - Manual download required'',
          if_then (\<not> netflix_shows_exists)
            (block
               [print_info ''Netflix Shows:'',
                print ''  1. Go to: https://www.kaggle.com/datasets/shivamb/netflix-shows'',
                print ''  2. Click 'Download' button (requires Kaggle login)'',
                print ''  3. Extract netflix_titles.csv to: datasets/Netflix/netflix/'',
                print []]),
          if_then (\<not> netflix_prize_exists)
            (block
               [print_info ''Netflix Prize:'',
                print ''  1. Go to: https://www.kaggle.com/datasets/netflix-inc/netflix-prize-data'',
                print ''  2. Click 'Download' button (requires Kaggle login)'',
                print ''  3. Extract all files to: datasets/Netflix/netflix_prize/''])]
     else
       block
         [if_then (\<not> netflix_shows_exists)
            (discard (setup_kaggle_dataset env ''shivamb/netflix-shows''
                        ''datasets/Netflix/netflix'' ''Netflix Shows'')),
          if_then (\<not> netflix_prize_exists)
            (discard (setup_kaggle_dataset env ''netflix-inc/netflix-prize-data''
                        ''datasets/Netflix/netflix_prize'' ''Netflix Prize''))])))"

definition setup_tmdb_dataset :: "'x env \<Rightarrow> bool \<Rightarrow> (unit, 'x) prog" where
  "setup_tmdb_dataset env has_kaggle =
     seq (print_header ''TMDB Dataset'')
    (andThen (check_dataset_exists ''datasets/TMDB'' ''TMDB Movies'') (\<lambda>already.
     if already then return ()
     else if \<not> has_kaggle then
       block
         [print_warning ''Kaggle API not configured - Manual download required'',
          print_info ''TMDB Movies:'',
          print ''  1. Go to: https://www.kaggle.com/datasets/asaniczka/tmdb-movies-dataset-2023-930k-movies'',
          print ''  2. Click 'Download' button (requires Kaggle login)'',
          print ''  3. Extract TMDB_movie_dataset_v11.csv to: datasets/TMDB/'']
     else
       discard (setup_kaggle_dataset env ''asaniczka/tmdb-movies-dataset-2023-930k-movies''
                  ''datasets/TMDB'' ''TMDB Movies'')))"

definition setup_anime_dataset :: "'x env \<Rightarrow> bool \<Rightarrow> (unit, 'x) prog" where
  "setup_anime_dataset env has_kaggle =
     seq (print_header ''MyAnimeList Dataset'')
    (andThen (check_dataset_exists ''datasets/anime'' ''MyAnimeList'') (\<lambda>already.
     if already then return ()
     else if \<not> has_kaggle then
       block
         [print_warning ''Kaggle API not configured - Manual download required'',
          print_info ''MyAnimeList:'',
          print ''  1. Go to: https://www.kaggle.com/datasets/hernan4444/anime-recommendation-database-2020'',
          print ''  2. Click 'Download' button (requires Kaggle login)'',
          print ''  3. Extract all CSV files to: datasets/anime/'']
     else
       discard (setup_kaggle_dataset env ''hernan4444/anime-recommendation-database-2020''
                  ''datasets/anime'' ''MyAnimeList'')))"

subsection \<open>Verification\<close>

text \<open>The dictionary \<^verbatim>\<open>required_files\<close>, in insertion order, which is the order of the loop.\<close>

definition required_files :: "(string \<times> string) list" where
  "required_files =
     [(''MovieLens 1M'', ''datasets/MovieLens/ml-1m/ratings.dat''),
      (''MovieLens 25M'', ''datasets/MovieLens/ml-25m/ratings.csv''),
      (''Netflix Shows'', ''datasets/Netflix/netflix/netflix_titles.csv''),
      (''Netflix Prize'', ''datasets/Netflix/netflix_prize''),
      (''TMDB'', ''datasets/TMDB/TMDB_movie_dataset_v11.csv''),
      (''MyAnimeList'', ''datasets/anime/anime.csv'')]"

text \<open>The loop of \<^verbatim>\<open>verify_datasets\<close>, with the variable \<^verbatim>\<open>all_present\<close> it updates.\<close>

fun verify_loop :: "(string \<times> string) list \<Rightarrow> bool \<Rightarrow> (bool, 'x) prog" where
  "verify_loop [] all_present = return all_present"
| "verify_loop ((name, path) # rest) all_present =
     andThen get_fs (\<lambda>f.
       if path_exists f (Path path)
       then seq (print_success (name @ '': Found'')) (verify_loop rest all_present)
       else seq (print_error (name @ '': Missing'')) (verify_loop rest False))"

definition verify_datasets :: "(bool, 'x) prog" where
  "verify_datasets =
     seq (print_header ''Verification'')
         (verify_loop required_files True)"

subsection \<open>Orchestration\<close>

definition print_kaggle_setup_instructions :: "(unit, 'x) prog" where
  "print_kaggle_setup_instructions =
     block
       [print_header ''Kaggle API Setup (Optional)'',
        print ''To enable automatic downloads from Kaggle:'',
        print [],
        print ''1. Create a Kaggle account at https://www.kaggle.com'',
        print ''2. Go to your Account Settings (click on profile picture)'',
        print ''3. Scroll to 'API' section'',
        print (''4. Click 'Create New API Token'' @ [CHR 0x27]),
        print ''5. This downloads kaggle.json file'',
        print ''6. Place kaggle.json in:'',
        print (''   - Windows: C:'' @ [CHR 0x5C] @ ''Users'' @ [CHR 0x5C] @ ''<YourUsername>''
                 @ [CHR 0x5C] @ ''.kaggle'' @ [CHR 0x5C] @ ''kaggle.json''),
        print ''   - Linux/Mac: ~/.kaggle/kaggle.json'',
        print ''7. Install kaggle package: pip install kaggle'',
        print [],
        print_info ''Alternatively, you can download datasets manually (see instructions above)'',
        print []]"

definition main :: "'x env \<Rightarrow> (unit, 'x) prog" where
  "main env =
     seq (print_header ''Movie Recommendation Systems - Dataset Setup'')
    (seq (print ''This script will download and setup all required datasets.'')
    (seq (print [])
    (seq (path_mkdir False True (Path ''datasets''))
    (andThen (check_kaggle_api env) (\<lambda>has_kaggle.
     seq (if_then (\<not> has_kaggle) (seq (print []) print_kaggle_setup_instructions))
    (seq (print [])
    (seq (setup_movielens env)
    (seq (setup_netflix_datasets env has_kaggle)
    (seq (setup_tmdb_dataset env has_kaggle)
    (seq (setup_anime_dataset env has_kaggle)
    (seq (print [])
    (andThen verify_datasets (\<lambda>all_present.
     seq (print_header ''Setup Complete'')
    (seq (if all_present then
            block
              [print_success ''All datasets are ready!'',
               print_info ''You can now run the Jupyter notebooks in recommendation_techniques/'']
          else
            block
              [print_warning ''Some datasets are missing.'',
               if_then (\<not> has_kaggle)
                 (block
                    [print_info ''For Kaggle datasets, you can:'',
                     print ''  Option 1: Setup Kaggle API and run this script again'',
                     print ''  Option 2: Download manually from the URLs shown above'']),
               print_info ''Place downloaded files in the correct folders and run this script again to verify.''])
         (print [])))))))))))))))"

text \<open>
  \<^verbatim>\<open>if __name__ == "__main__": main()\<close>: the exit status of the interpreter is 0 when
  \<^verbatim>\<open>main\<close> returns and 1 when an exception leaves it. The script itself never calls
  \<^verbatim>\<open>sys.exit\<close>; a \<^verbatim>\<open>SystemExit\<close> or \<^verbatim>\<open>KeyboardInterrupt\<close> coming from a collaborator
  would end the interpreter with a status of its own, which is not told apart here.
\<close>

definition exit_status :: "(exn + unit) \<times> 'x world \<Rightarrow> nat" where
  "exit_status r = (case fst r of Inr u \<Rightarrow> 0 | Inl e \<Rightarrow> 1)"

definition script :: "'x env \<Rightarrow> 'x world \<Rightarrow> nat" where
  "script env w = exit_status (main env w)"

section \<open>Notions used to state the properties\<close>

text \<open>
  A destination is populated when it is a directory with at least one entry, and
  unpopulated when it is missing or is a directory without entries. (A regular file at the
  place of a destination is neither.)
\<close>

definition populated :: "node \<Rightarrow> path \<Rightarrow> bool" where
  "populated f p = (case resolve f p of Inr (Dir es) \<Rightarrow> es \<noteq> [] | _ \<Rightarrow> False)"

definition unpopulated :: "node \<Rightarrow> path \<Rightarrow> bool" where
  "unpopulated f p = (case resolve f p of Inr (Dir es) \<Rightarrow> es = [] | Inr File \<Rightarrow> False | Inl e \<Rightarrow> True)"

text \<open>What the run has added to the output and to the trace since a starting state.\<close>

definition printed :: "'x world \<Rightarrow> 'x world \<Rightarrow> string list" where
  "printed w w' = drop (length (stdout w)) (stdout w')"

definition performed :: "'x world \<Rightarrow> 'x world \<Rightarrow> event list" where
  "performed w w' = drop (length (trace w)) (trace w')"

text \<open>The line that \<^verbatim>\<open>verify_datasets\<close> prints for an entry of its table.\<close>

definition verify_line :: "node \<Rightarrow> string \<times> string \<Rightarrow> string" where
  "verify_line f r =
     (if path_exists f (Path (snd r)) then ''[OK] '' @ fst r @ '': Found'' @ newline
      else ''[ERROR] '' @ fst r @ '': Missing'' @ newline)"

subsection \<open>Concrete filesystems and environments\<close>

text \<open>An empty working directory, and states of the filesystem met in examples.\<close>

definition fs_empty :: node where
  "fs_empty = Dir []"

definition fs_complete :: node where
  "fs_complete =
     Dir [(''datasets'',
       Dir [(''MovieLens'',
               Dir [(''ml-1m'', Dir [(''ratings.dat'', File)]),
                    (''ml-25m'', Dir [(''ratings.csv'', File)])]),
            (''Netflix'',
               Dir [(''netflix'', Dir [(''netflix_titles.csv'', File)]),
                    (''netflix_prize'', Dir [(''combined_data_1.txt'', File)])]),
            (''TMDB'', Dir [(''TMDB_movie_dataset_v11.csv'', File)]),
            (''anime'', Dir [(''anime.csv'', File)])])]"

definition fs_empty_destinations :: node where
  "fs_empty_destinations =
     Dir [(''datasets'',
       Dir [(''MovieLens'', Dir [(''ml-1m'', Dir []), (''ml-25m'', Dir [])]),
            (''Netflix'', Dir [(''netflix'', Dir []), (''netflix_prize'', Dir [])]),
            (''TMDB'', Dir []),
            (''anime'', Dir [])])]"

definition start :: "node \<Rightarrow> unit world" where
  "start f = \<lparr>fs = f, stdout = [], trace = [], ext = ()\<rparr>"

text \<open>
  No network and no \<^verbatim>\<open>kaggle\<close> package: every transfer raises \<^verbatim>\<open>URLError\<close>, the import raises
  \<^verbatim>\<open>ModuleNotFoundError\<close>, nothing is written.
\<close>

definition env_offline :: "unit env" where
  "env_offline =
     \<lparr>net_urlretrieve = (\<lambda>url filename f x.
        ([], Some (Exn URLError ''<urlopen error [Errno -3] Temporary failure in name resolution>''), f, x)),
      zip_extractall = (\<lambda>zip_path extract_to f x.
        (Some (Exn BadZipFile ''File is not a zip file''), f, x)),
      kaggle_import = (\<lambda>x. (Some (Exn ModuleNotFoundError ''No module named kaggle''), x)),
      kaggle_download = (\<lambda>dataset_id path f x.
        (Some (Exn URLError ''<urlopen error [Errno -3] Temporary failure in name resolution>''), f, x))\<rparr>"

text \<open>
  The \<^verbatim>\<open>kaggle\<close> package is installed but finds no credentials: its import raises
  \<^verbatim>\<open>OSError\<close>. The network is reachable: a transfer writes the archive, an extraction
  unpacks the directory of the dataset beside it.
\<close>

definition unpack :: "path \<Rightarrow> path \<Rightarrow> node \<Rightarrow> node" where
  "unpack zip_path extract_to f =
     (if zip_path = [''datasets'', ''MovieLens'', ''ml-1m.zip'']
      then put (Dir [(''ratings.dat'', File)]) (extract_to @ [''ml-1m'']) f
      else if zip_path = [''datasets'', ''MovieLens'', ''ml-25m.zip'']
      then put (Dir [(''ratings.csv'', File)]) (extract_to @ [''ml-25m'']) f
      else f)"

definition env_no_credentials :: "unit env" where
  "env_no_credentials =
     \<lparr>net_urlretrieve = (\<lambda>url filename f x.
        ([(0, 8192, 16384), (1, 8192, 16384), (2, 8192, 16384)], None, put File filename f, x)),
      zip_extractall = (\<lambda>zip_path extract_to f x. (None, unpack zip_path extract_to f, x)),
      kaggle_import = (\<lambda>x. (Some (Exn OSError ''Could not find kaggle.json''), x)),
      kaggle_download = (\<lambda>dataset_id path f x.
        (Some (Exn OSError ''Could not find kaggle.json''), f, x))\<rparr>"

text \<open>Everything works: the package is installed, credentials are found, Kaggle answers.\<close>

definition kaggle_files :: "string \<Rightarrow> string" where
  "kaggle_files dataset_id =
     (if dataset_id = ''shivamb/netflix-shows'' then ''netflix_titles.csv''
      else if dataset_id = ''netflix-inc/netflix-prize-data'' then ''combined_data_1.txt''
      else if dataset_id = ''asaniczka/tmdb-movies-dataset-2023-930k-movies''
      then ''TMDB_movie_dataset_v11.csv''
      else ''anime.csv'')"

definition env_online :: "unit env" where
  "env_online =
     \<lparr>net_urlretrieve = (\<lambda>url filename f x.
        ([(0, 8192, 16384), (1, 8192, 16384), (2, 8192, 16384)], None, put File filename f, x)),
      zip_extractall = (\<lambda>zip_path extract_to f x. (None, unpack zip_path extract_to f, x)),
      kaggle_import = (\<lambda>x. (None, x)),
      kaggle_download = (\<lambda>dataset_id path f x.
        (None, put File (Path path @ [kaggle_files dataset_id]) f, x))\<rparr>"


subsection \<open>Properties of statements\<close>

text \<open>
  Three ways to bound what a statement does, whatever state it starts in: which exceptions
  can leave it, which calls it adds to the trace, and which lines it is sure to have
  printed when it returns (it never takes output back).
\<close>

definition only_raises :: "('a, 'x) prog \<Rightarrow> (exn \<Rightarrow> bool) \<Rightarrow> bool" where
  "only_raises m P = (\<forall>w e. fst (m w) = Inl e \<longrightarrow> P e)"

definition performs :: "('a, 'x) prog \<Rightarrow> (event list \<Rightarrow> bool) \<Rightarrow> bool" where
  "performs m P =
     (\<forall>w. prefix (trace w) (trace (snd (m w))) \<and> P (performed w (snd (m w))))"

definition emits :: "('a, 'x) prog \<Rightarrow> string set \<Rightarrow> bool" where
  "emits m S =
     (\<forall>w. prefix (stdout w) (stdout (snd (m w)))
        \<and> (\<forall>v. fst (m w) = Inr v \<longrightarrow> S \<subseteq> set (printed w (snd (m w)))))"




text \<open>
  The package is installed and the credentials are found, but Kaggle refuses every
  download and nothing is written.
\<close>

definition env_kaggle_refuses :: "unit env" where
  "env_kaggle_refuses =
     env_online\<lparr>kaggle_download := (\<lambda>dataset_id path f x.
       (Some (Exn (OtherException ''ApiException'') ''(403) Forbidden''), f, x))\<rparr>"

text \<open>
  A statement left everything but the output as it was: the filesystem, the trace (so it
  made no call that writes or leaves the process) and the outside state.
\<close>

definition only_printed :: "'x world \<Rightarrow> 'x world \<Rightarrow> bool" where
  "only_printed w w' = (fs w' = fs w \<and> trace w' = trace w \<and> ext w' = ext w)"

text \<open>What a verification started in a state reports for a dataset.\<close>

definition reports_missing :: "string \<Rightarrow> 'x world \<Rightarrow> bool" where
  "reports_missing name w =
     ((''[ERROR] '' @ name @ '': Missing'' @ newline) \<in> set (printed w (snd (verify_datasets w))))"

definition reports_found :: "string \<Rightarrow> 'x world \<Rightarrow> bool" where
  "reports_found name w =
     ((''[OK] '' @ name @ '': Found'' @ newline) \<in> set (printed w (snd (verify_datasets w))))"

text \<open>
  In a trace, every \<open>Unlink\<close> comes right after the successful \<open>Extractall\<close> of the same
  archive. The first argument is the event before the list.
\<close>

fun unlink_guarded :: "event option \<Rightarrow> event list \<Rightarrow> bool" where
  "unlink_guarded prev [] = True"
| "unlink_guarded prev (Unlink z out # evs) =
     ((case prev of Some (Extractall z' d None) \<Rightarrow> z' = z | _ \<Rightarrow> False)
      \<and> unlink_guarded (Some (Unlink z out)) evs)"
| "unlink_guarded prev (ev # evs) = unlink_guarded (Some ev) evs"

text \<open>
  The calls that belong to an item: for a MovieLens item the transfer from its URL or to
  its archive, the extraction and the removal of its archive; for a Kaggle item the
  creation of its destination and the download of its dataset or into its destination.
\<close>

fun movielens_event_of :: "path \<Rightarrow> dataset \<Rightarrow> event \<Rightarrow> bool" where
  "movielens_event_of d it (Urlretrieve url z out) =
     (url = ds_url it \<or> z = joinpath d (ds_filename it))"
| "movielens_event_of d it (Extractall z to out) = (z = joinpath d (ds_filename it))"
| "movielens_event_of d it (Unlink z out) = (z = joinpath d (ds_filename it))"
| "movielens_event_of d it ev = False"

fun kaggle_event_of :: "string \<Rightarrow> string \<Rightarrow> event \<Rightarrow> bool" where
  "kaggle_event_of i dest (DatasetDownloadFiles i' dest' out) = (i' = i \<or> dest' = dest)"
| "kaggle_event_of i dest (Mkdir p out) = (p = Path dest)"
| "kaggle_event_of i dest ev = False"

text \<open>
  The archive arrives, but it is damaged: every extraction raises \<^verbatim>\<open>BadZipFile\<close> and
  unpacks nothing.
\<close>

definition env_corrupt_archive :: "unit env" where
  "env_corrupt_archive =
     env_no_credentials\<lparr>zip_extractall := (\<lambda>zip_path extract_to f x.
       (Some (Exn BadZipFile ''File is not a zip file''), f, x))\<rparr>"

text \<open>The working directory when only \<^verbatim>\<open>datasets/MovieLens\<close> has been created.\<close>

definition fs_movielens_dir :: node where
  "fs_movielens_dir = Dir [(''datasets'', Dir [(''MovieLens'', Dir [])])]"

definition movielens_1m :: dataset where
  "movielens_1m = hd movielens_datasets"

text \<open>
  An assumption on the collaborators used for one statement only: a transfer or an
  extraction never empties or removes a populated directory at the given path.
\<close>

definition keeps_populated :: "'x env \<Rightarrow> path \<Rightarrow> bool" where
  "keeps_populated env p =
     ((\<forall>url z f x. populated f p \<longrightarrow> populated (fst (snd (snd (net_urlretrieve env url z f x)))) p)
    \<and> (\<forall>z d f x. populated f p \<longrightarrow> populated (fst (snd (zip_extractall env z d f x))) p))"

definition movielens_25m :: dataset where
  "movielens_25m = hd (tl movielens_datasets)"

text \<open>Only MovieLens 25M is there.\<close>

definition fs_movielens_25m :: node where
  "fs_movielens_25m =
     Dir [(''datasets'', Dir [(''MovieLens'', Dir [(''ml-25m'', Dir [(''ratings.csv'', File)])])])]"


text \<open>
  \<open>main\<close> in two parts, to speak about what comes before and after its call of
  \<open>verify_datasets\<close>: lines 318 to 341 (giving \<^verbatim>\<open>has_kaggle\<close>) and lines 345 to 361.
\<close>

definition main_setup :: "'x env \<Rightarrow> (bool, 'x) prog" where
  "main_setup env =
     seq (print_header ''Movie Recommendation Systems - Dataset Setup'')
    (seq (print ''This script will download and setup all required datasets.'')
    (seq (print [])
    (seq (path_mkdir False True (Path ''datasets''))
    (andThen (check_kaggle_api env) (\<lambda>has_kaggle.
     seq (if_then (\<not> has_kaggle) (seq (print []) print_kaggle_setup_instructions))
    (seq (print [])
    (seq (setup_movielens env)
    (seq (setup_netflix_datasets env has_kaggle)
    (seq (setup_tmdb_dataset env has_kaggle)
    (seq (setup_anime_dataset env has_kaggle)
    (seq (print [])
         (return has_kaggle))))))))))))"

definition main_summary :: "bool \<Rightarrow> bool \<Rightarrow> (unit, 'x) prog" where
  "main_summary has_kaggle all_present =
     seq (print_header ''Setup Complete'')
    (seq (if all_present then
            block
              [print_success ''All datasets are ready!'',
               print_info ''You can now run the Jupyter notebooks in recommendation_techniques/'']
          else
            block
              [print_warning ''Some datasets are missing.'',
               if_then (\<not> has_kaggle)
                 (block
                    [print_info ''For Kaggle datasets, you can:'',
                     print ''  Option 1: Setup Kaggle API and run this script again'',
                     print ''  Option 2: Download manually from the URLs shown above'']),
               print_info ''Place downloaded files in the correct folders and run this script again to verify.''])
         (print []))"

text \<open>Every marker of \<open>required_files\<close> exists.\<close>

definition all_markers :: "node \<Rightarrow> bool" where
  "all_markers f = list_all (\<lambda>r. path_exists f (Path (snd r))) required_files"

section \<open>Auxiliary facts\<close>

subsection \<open>Paths and path resolution\<close>

lemma resolve_append:
  "resolve f (p @ q) = (case resolve f p of Inl e \<Rightarrow> Inl e | Inr n \<Rightarrow> resolve n q)"
  by (induction f p rule: resolve.induct) (auto split: option.splits)

lemma Path_datasets: "Path ''datasets'' = [''datasets'']"
  by (simp add: Path_def)

lemma Path_movielens: "Path ''datasets/MovieLens'' = [''datasets'', ''MovieLens'']"
  by (simp add: Path_def)

lemma Path_destinations:
  "Path ''datasets/Netflix/netflix'' = [''datasets'', ''Netflix'', ''netflix'']"
  "Path ''datasets/Netflix/netflix_prize'' = [''datasets'', ''Netflix'', ''netflix_prize'']"
  "Path ''datasets/TMDB'' = [''datasets'', ''TMDB'']"
  "Path ''datasets/anime'' = [''datasets'', ''anime'']"
  by (simp_all add: Path_def)

lemma Path_markers:
  "Path ''datasets/MovieLens/ml-1m/ratings.dat'' = [''datasets'', ''MovieLens'', ''ml-1m'', ''ratings.dat'']"
  "Path ''datasets/MovieLens/ml-25m/ratings.csv'' = [''datasets'', ''MovieLens'', ''ml-25m'', ''ratings.csv'']"
  "Path ''datasets/Netflix/netflix/netflix_titles.csv'' = [''datasets'', ''Netflix'', ''netflix'', ''netflix_titles.csv'']"
  "Path ''datasets/TMDB/TMDB_movie_dataset_v11.csv'' = [''datasets'', ''TMDB'', ''TMDB_movie_dataset_v11.csv'']"
  "Path ''datasets/anime/anime.csv'' = [''datasets'', ''anime'', ''anime.csv'']"
  by (simp_all add: Path_def)

lemma Path_movielens_items:
  "Path ''ml-1m'' = [''ml-1m'']" "Path ''ml-25m'' = [''ml-25m'']"
  "Path ''ml-1m.zip'' = [''ml-1m.zip'']" "Path ''ml-25m.zip'' = [''ml-25m.zip'']"
  by (simp_all add: Path_def)

subsection \<open>Output\<close>

lemma print_apply: "print s w = (Inr (), w\<lparr>stdout := stdout w @ [s @ newline]\<rparr>)"
  by (simp add: print_def sys_stdout_write_def)

lemma print_header_apply:
  "print_header t w =
     (Inr (), w\<lparr>stdout := stdout w @
        [newline @ replicate 70 CHR ''='' @ newline,
         center 70 t @ newline,
         replicate 70 CHR ''='' @ newline @ newline]\<rparr>)"
  by (simp add: print_header_def print_apply seq_def andThen_def return_def)

subsection \<open>Verification\<close>

lemma verify_loop_apply:
  "verify_loop rs ap w =
     (Inr (ap \<and> (\<forall>r\<in>set rs. path_exists (fs w) (Path (snd r)))),
      w\<lparr>stdout := stdout w @ map (verify_line (fs w)) rs\<rparr>)"
proof (induction rs arbitrary: ap w)
  case Nil
  show ?case by (simp add: return_def)
next
  case (Cons r rs)
  obtain name path where r: "r = (name, path)" by (cases r)
  show ?case
    by (auto simp: r Cons.IH andThen_def seq_def get_fs_def print_success_def print_error_def
        print_apply verify_line_def)
qed

lemma verify_datasets_apply:
  "verify_datasets w =
     (Inr (\<forall>r\<in>set required_files. path_exists (fs w) (Path (snd r))),
      w\<lparr>stdout := stdout w @
          [newline @ replicate 70 CHR ''='' @ newline,
           center 70 ''Verification'' @ newline,
           replicate 70 CHR ''='' @ newline @ newline]
          @ map (verify_line (fs w)) required_files\<rparr>)"
  by (simp add: verify_datasets_def seq_def andThen_def print_header_apply verify_loop_apply)

subsection \<open>The skip test\<close>

lemma exists_and_any_iterdir_populated:
  "populated (fs w) p \<Longrightarrow> exists_and_any_iterdir p w = (Inr True, w)"
  by (auto simp: populated_def exists_and_any_iterdir_def andThen_def get_fs_def path_exists_def
      path_iterdir_def iterdir_def return_def split: sum.splits node.splits)

lemma exists_and_any_iterdir_unpopulated:
  "unpopulated (fs w) p \<Longrightarrow> exists_and_any_iterdir p w = (Inr False, w)"
  by (auto simp: unpopulated_def exists_and_any_iterdir_def andThen_def get_fs_def path_exists_def
      path_iterdir_def iterdir_def return_def split: sum.splits node.splits)

lemma exists_and_any_iterdir_file:
  "resolve (fs w) p = Inr File \<Longrightarrow> exists_and_any_iterdir p w = (Inl (not_a_directory_error p), w)"
  by (auto simp: exists_and_any_iterdir_def andThen_def get_fs_def path_exists_def
      path_iterdir_def iterdir_def return_def split: sum.splits node.splits)

lemma exists_and_any_iterdir_cases:
  "exists_and_any_iterdir p w = (Inr (populated (fs w) p), w)
   \<or> exists_and_any_iterdir p w = (Inl (not_a_directory_error p), w)"
  by (auto simp: populated_def exists_and_any_iterdir_def andThen_def get_fs_def path_exists_def
      path_iterdir_def iterdir_def return_def split: sum.splits node.splits)

subsection \<open>The credential probe\<close>

lemma check_kaggle_api_apply:
  "check_kaggle_api env w =
     (case kaggle_import env (ext w) of
        (None, x') \<Rightarrow>
          (Inr True, w\<lparr>stdout := stdout w @ [''[OK] Kaggle API is configured'' @ newline],
                       trace := trace w @ [ImportKaggle None], ext := x'\<rparr>)
      | (Some e, x') \<Rightarrow>
          if isinstance e OSError then
            (Inr False, w\<lparr>stdout := stdout w @ [''[ERROR] Kaggle API credentials not found'' @ newline],
                          trace := trace w @ [ImportKaggle (Some e)], ext := x'\<rparr>)
          else if isinstance e ImportError then
            (Inr False, w\<lparr>stdout := stdout w @ [''[ERROR] Kaggle package not installed'' @ newline],
                          trace := trace w @ [ImportKaggle (Some e)], ext := x'\<rparr>)
          else (Inl e, w\<lparr>trace := trace w @ [ImportKaggle (Some e)], ext := x'\<rparr>))"
  by (auto simp: check_kaggle_api_def try_except_def seq_def andThen_def import_kaggle_def
      print_success_def print_error_def print_apply return_def split: prod.splits option.splits)

subsection \<open>Creating directories\<close>


lemma os_mkdir_error_class:
  "os_mkdir f p = Inl e \<Longrightarrow>
     exn_class e \<in> {FileExistsError, NotADirectoryError, FileNotFoundError}"
  by (auto simp: os_mkdir_def file_exists_error_def not_a_directory_error_def
      file_not_found_error_def os_error_def split: sum.splits errno.splits node.splits)

lemma mkdir_error_class:
  "mkdir parents exist_ok p f = Inl e \<Longrightarrow>
     exn_class e \<in> {FileExistsError, NotADirectoryError, FileNotFoundError}"
proof (induction parents exist_ok p f arbitrary: e rule: mkdir.induct)
  case (1 parents exist_ok p f)
  show ?case
  proof (cases "os_mkdir f p")
    case (Inr f')
    with "1.prems" show ?thesis by (simp add: mkdir.simps [of parents exist_ok p f])
  next
    case (Inl e0)
    note cls = os_mkdir_error_class [OF Inl]
    show ?thesis
    proof (cases "isinstance e0 FileNotFoundError \<and> parents \<and> p \<noteq> []")
      case False
      with "1.prems" Inl cls show ?thesis
        by (auto simp: mkdir.simps [of parents exist_ok p f] split: if_splits)
    next
      case True
      have step: "mkdir parents exist_ok p f =
          (case mkdir True True (butlast p) f of
             Inl e' \<Rightarrow> Inl e'
           | Inr f1 \<Rightarrow> mkdir False exist_ok p f1)"
        using Inl True by (subst mkdir.simps) simp
      have c: "\<not> (\<not> parents \<or> p = [])" using True by simp
      show ?thesis
      proof (cases "mkdir True True (butlast p) f")
        case (Inl e1)
        with "1.prems" step have "e = e1" by simp
        with "1.IH"(1) [OF \<open>os_mkdir f p = Inl e0\<close> _ c Inl] True show ?thesis by simp
      next
        case (Inr f1)
        with "1.prems" step have "mkdir False exist_ok p f1 = Inl e" by simp
        with "1.IH"(2) [OF \<open>os_mkdir f p = Inl e0\<close> _ c Inr] True show ?thesis by simp
      qed
    qed
  qed
qed

lemma mkdir_existing_dir:
  "is_dir f p \<Longrightarrow> mkdir parents True p f = Inr f"
  by (auto simp: mkdir.simps [of parents True p f] os_mkdir_def is_dir_def isinstance_def
      issubclass_def file_exists_error_def os_error_def split: sum.splits node.splits)

lemma put_resolve_self:
  "resolve f (butlast p) = Inr (Dir es) \<Longrightarrow> p \<noteq> [] \<Longrightarrow> resolve (put n p f) p = Inr n"
proof (induction n p f arbitrary: es rule: put.induct)
  case (1 new n)
  then show ?case by simp
next
  case (2 new c cs)
  then show ?case by (cases cs) auto
next
  case (3 new c cs es0)
  show ?case
  proof (cases "cs = []")
    case True
    then show ?thesis by (simp add: update_conv')
  next
    case False
    with "3.prems" obtain ch where ch: "map_of es0 c = Some ch" "resolve ch (butlast cs) = Inr (Dir es)"
      by (auto split: option.splits)
    with False "3.IH" [OF False ch(1) ch(2) False] show ?thesis
      by (simp add: update_conv')
  qed
qed

lemma mkdir_creates:
  "mkdir parents exist_ok p f = Inr f' \<Longrightarrow> \<not> path_exists f p \<Longrightarrow> resolve f' p = Inr (Dir [])"
proof (induction parents exist_ok p f arbitrary: f' rule: mkdir.induct)
  case (1 parents exist_ok p f)
  from "1.prems"(2) have ne: "p \<noteq> []" by (auto simp: path_exists_def)
  from "1.prems"(2) have nd: "\<not> is_dir f p"
    by (auto simp: path_exists_def is_dir_def split: sum.splits)
  show ?case
  proof (cases "os_mkdir f p")
    case (Inr f0)
    with "1.prems" have eq: "f' = f0" by (simp add: mkdir.simps [of parents exist_ok p f])
    from Inr obtain es where "resolve f (butlast p) = Inr (Dir es)" "f0 = put (Dir []) p f"
      by (auto simp: os_mkdir_def split: sum.splits errno.splits node.splits)
    with ne eq show ?thesis by (simp add: put_resolve_self)
  next
    case (Inl e0)
    with "1.prems" nd have fnf: "isinstance e0 FileNotFoundError" and par: "parents"
      by (auto simp: mkdir.simps [of parents exist_ok p f] split: if_splits)
    from Inl fnf have parent: "\<not> path_exists f (butlast p)"
      by (auto simp: os_mkdir_def path_exists_def isinstance_def issubclass_def
          file_exists_error_def not_a_directory_error_def file_not_found_error_def os_error_def
          split: sum.splits errno.splits node.splits)
    have step: "mkdir parents exist_ok p f =
        (case mkdir True True (butlast p) f of
           Inl e' \<Rightarrow> Inl e'
         | Inr f1 \<Rightarrow> mkdir False exist_ok p f1)"
      using Inl fnf par ne by (subst mkdir.simps) simp
    from "1.prems"(1) step obtain f1 where
      f1: "mkdir True True (butlast p) f = Inr f1" and f': "mkdir False exist_ok p f1 = Inr f'"
      by (auto split: sum.splits)
    have c: "\<not> (\<not> parents \<or> p = [])" using par ne by simp
    from "1.IH"(1) [OF Inl fnf c f1 parent] have r1: "resolve f1 (butlast p) = Inr (Dir [])" .
    have "resolve f1 (butlast p @ [last p]) = Inl ENOENT"
      by (simp add: resolve_append r1)
    with ne have "\<not> path_exists f1 p" by (simp add: path_exists_def)
    from "1.IH"(2) [OF Inl fnf c f1 f' this] show ?thesis .
  qed
qed

subsection \<open>Transport primitives\<close>


lemma reporthook_apply:
  "reporthook c b t w =
     (if t = 0 then (Inl (Exn ZeroDivisionError ''division by zero''), w)
      else (Inr (), w\<lparr>stdout := stdout w @
              [carriage_return @ ''  Progress: '' @ show_int (int_trunc_div (c * b * 100) t) @ ''% '']\<rparr>))"
  by (simp add: reporthook_def raise_def sys_stdout_write_def)

lemma run_hooks_reporthook:
  "fs (snd (run_hooks reporthook cs w)) = fs w
   \<and> trace (snd (run_hooks reporthook cs w)) = trace w
   \<and> ext (snd (run_hooks reporthook cs w)) = ext w
   \<and> prefix (stdout w) (stdout (snd (run_hooks reporthook cs w)))
   \<and> (\<forall>e. fst (run_hooks reporthook cs w) = Inl e \<longrightarrow> e = Exn ZeroDivisionError ''division by zero'')"
proof (induction cs arbitrary: w)
  case Nil
  show ?case by (simp add: return_def)
next
  case (Cons c cs)
  obtain a b t where c: "c = (a, b, t)" by (cases c)
  show ?case
  proof (cases "t = 0")
    case True
    then have hd: "reporthook a b t w = (Inl (Exn ZeroDivisionError ''division by zero''), w)"
      by (simp add: reporthook_apply)
    have "run_hooks reporthook (c # cs) w = (Inl (Exn ZeroDivisionError ''division by zero''), w)"
      by (simp add: c seq_def andThen_def hd)
    then show ?thesis by simp
  next
    case False
    let ?w1 = "w\<lparr>stdout := stdout w @
              [carriage_return @ ''  Progress: '' @ show_int (int_trunc_div (a * b * 100) t) @ ''% '']\<rparr>"
    from False have hd: "reporthook a b t w = (Inr (), ?w1)"
      by (simp add: reporthook_apply)
    have step: "run_hooks reporthook (c # cs) w = run_hooks reporthook cs ?w1"
      by (simp add: c seq_def andThen_def hd)
    have "prefix (stdout w) (stdout ?w1)" by simp
    with Cons.IH [of ?w1] have "prefix (stdout w) (stdout (snd (run_hooks reporthook cs ?w1)))"
      using prefix_order.trans by blast
    with Cons.IH [of ?w1] show ?thesis
      unfolding step by simp
  qed
qed

lemma urlretrieve_reporthook:
  "fs (snd (urlretrieve env url p reporthook w)) = fst (snd (snd (net_urlretrieve env url p (fs w) (ext w))))
   \<and> ext (snd (urlretrieve env url p reporthook w)) = snd (snd (snd (net_urlretrieve env url p (fs w) (ext w))))
   \<and> trace (snd (urlretrieve env url p reporthook w)) =
       trace w @ [Urlretrieve url p (case fst (urlretrieve env url p reporthook w) of
                                       Inl e \<Rightarrow> Some e | Inr u \<Rightarrow> None)]
   \<and> prefix (stdout w) (stdout (snd (urlretrieve env url p reporthook w)))
   \<and> (\<forall>e. fst (urlretrieve env url p reporthook w) = Inl e \<longrightarrow>
          e = Exn ZeroDivisionError ''division by zero''
          \<or> fst (snd (net_urlretrieve env url p (fs w) (ext w))) = Some e)"
proof -
  obtain calls res f' x' where n: "net_urlretrieve env url p (fs w) (ext w) = (calls, res, f', x')"
    by (cases "net_urlretrieve env url p (fs w) (ext w)") auto
  let ?w0 = "w\<lparr>fs := f', ext := x'\<rparr>"
  note h = run_hooks_reporthook [of calls ?w0]
  obtain r w1 where rh: "run_hooks reporthook calls ?w0 = (r, w1)"
    by (cases "run_hooks reporthook calls ?w0")
  with h have w1: "fs w1 = f'" "ext w1 = x'" "trace w1 = trace w" "prefix (stdout w) (stdout w1)"
    and z: "\<forall>e. r = Inl e \<longrightarrow> e = Exn ZeroDivisionError ''division by zero''"
    by simp_all
  show ?thesis
  proof (cases r)
    case (Inl e)
    with z rh w1 n show ?thesis by (simp add: urlretrieve_def)
  next
    case (Inr u)
    with rh w1 n show ?thesis by (cases res) (simp_all add: urlretrieve_def)
  qed
qed

text \<open>
  \<open>download_file\<close>: one call of \<open>urlretrieve\<close>; the result is true exactly when it
  succeeded; only an exception that is no instance of \<^verbatim>\<open>Exception\<close> leaves it.
\<close>

lemma download_file_facts:
  "fs (snd (download_file env url p d w)) = fst (snd (snd (net_urlretrieve env url p (fs w) (ext w))))
   \<and> ext (snd (download_file env url p d w)) = snd (snd (snd (net_urlretrieve env url p (fs w) (ext w))))
   \<and> (\<exists>out. trace (snd (download_file env url p d w)) = trace w @ [Urlretrieve url p out]
          \<and> (fst (download_file env url p d w) = Inr True \<longrightarrow> out = None)
          \<and> (fst (download_file env url p d w) = Inr False \<longrightarrow> out \<noteq> None))
   \<and> prefix (stdout w) (stdout (snd (download_file env url p d w)))
   \<and> (\<forall>e. fst (download_file env url p d w) = Inl e \<longrightarrow>
          \<not> isinstance e Exception
          \<and> fst (snd (net_urlretrieve env url p (fs w) (ext w))) = Some e)"
proof -
  let ?w0 = "w\<lparr>stdout := stdout w @ [''[INFO] '' @ (''Downloading '' @ d @ ''...'') @ newline]\<rparr>"
  note u = urlretrieve_reporthook [of env url p ?w0]
  obtain r w1 where r: "urlretrieve env url p reporthook ?w0 = (r, w1)"
    by (cases "urlretrieve env url p reporthook ?w0")
  have p0: "prefix (stdout w) (stdout ?w0)" by simp
  from u r have p1: "prefix (stdout w) (stdout w1)"
    using p0 prefix_order.trans by fastforce
  have zde: "isinstance (Exn ZeroDivisionError ''division by zero'') Exception"
    by (simp add: isinstance_def issubclass_def)
  show ?thesis
  proof (cases r)
    case (Inr v)
    with u r p1 show ?thesis
      by (simp add: download_file_def seq_def andThen_def try_except_def print_info_def
          print_success_def print_apply return_def)
  next
    case (Inl e)
    show ?thesis
    proof (cases "isinstance e Exception")
      case True
      with Inl u r p1 show ?thesis
        by (simp add: download_file_def seq_def andThen_def try_except_def print_info_def
            print_error_def print_success_def print_apply return_def)
    next
      case False
      with zde have "e \<noteq> Exn ZeroDivisionError ''division by zero''" by auto
      with False Inl u r p1 show ?thesis
        by (simp add: download_file_def seq_def andThen_def try_except_def print_info_def
            print_error_def print_success_def print_apply return_def)
    qed
  qed
qed

subsection \<open>Extraction and the Kaggle download\<close>


lemma extract_zip_facts:
  "fs (snd (extract_zip env z d n w)) = fst (snd (zip_extractall env z d (fs w) (ext w)))
   \<and> ext (snd (extract_zip env z d n w)) = snd (snd (zip_extractall env z d (fs w) (ext w)))
   \<and> trace (snd (extract_zip env z d n w)) =
       trace w @ [Extractall z d (fst (zip_extractall env z d (fs w) (ext w)))]
   \<and> prefix (stdout w) (stdout (snd (extract_zip env z d n w)))
   \<and> (fst (extract_zip env z d n w) = Inr True \<longleftrightarrow> fst (zip_extractall env z d (fs w) (ext w)) = None)
   \<and> (\<forall>e. fst (extract_zip env z d n w) = Inl e \<longrightarrow>
          \<not> isinstance e Exception \<and> fst (zip_extractall env z d (fs w) (ext w)) = Some e)"
proof -
  obtain res f' x' where n: "zip_extractall env z d (fs w) (ext w) = (res, f', x')"
    by (cases "zip_extractall env z d (fs w) (ext w)") auto
  show ?thesis
  proof (cases res)
    case None
    with n show ?thesis
      by (simp add: extract_zip_def seq_def andThen_def try_except_def print_info_def
          print_success_def print_apply return_def extractall_def)
  next
    case (Some e)
    with n show ?thesis
      by (cases "isinstance e Exception")
         (simp_all add: extract_zip_def seq_def andThen_def try_except_def print_info_def
          print_error_def print_success_def print_apply return_def extractall_def)
  qed
qed

lemma check_dataset_exists_populated:
  "populated (fs w) (Path p) \<Longrightarrow>
     check_dataset_exists p n w =
       (Inr True, w\<lparr>stdout := stdout w @ [''[OK] '' @ n @ '': Already exists'' @ newline]\<rparr>)"
  by (simp add: check_dataset_exists_def andThen_def exists_and_any_iterdir_populated seq_def
      print_success_def print_apply return_def)

lemma check_dataset_exists_unpopulated:
  "unpopulated (fs w) (Path p) \<Longrightarrow> check_dataset_exists p n w = (Inr False, w)"
  by (simp add: check_dataset_exists_def andThen_def exists_and_any_iterdir_unpopulated return_def)

lemma check_dataset_exists_cases:
  "check_dataset_exists p n w =
     (if populated (fs w) (Path p)
      then (Inr True, w\<lparr>stdout := stdout w @ [''[OK] '' @ n @ '': Already exists'' @ newline]\<rparr>)
      else (Inr False, w))
   \<or> check_dataset_exists p n w = (Inl (not_a_directory_error (Path p)), w)"
  using exists_and_any_iterdir_cases [of "Path p" w]
  by (auto simp: check_dataset_exists_def andThen_def seq_def print_success_def print_apply
      return_def)



lemma mkdir_error_Exception: "mkdir a b p f = Inl e \<Longrightarrow> isinstance e Exception"
  using mkdir_error_class [of a b p f e] by (auto simp: isinstance_def issubclass_def)

lemma setup_kaggle_dataset_apply:
  "setup_kaggle_dataset env i dest n w =
     (case kaggle_import env (ext w) of
        (Some e, x1) \<Rightarrow>
          if isinstance e Exception
          then (Inr False, w\<lparr>ext := x1, trace := trace w @ [ImportKaggle (Some e)],
                  stdout := stdout w @ [''[ERROR] '' @ (''Failed to download '' @ n @ '': '' @ exn_str e) @ newline]\<rparr>)
          else (Inl e, w\<lparr>ext := x1, trace := trace w @ [ImportKaggle (Some e)]\<rparr>)
      | (None, x1) \<Rightarrow>
          (case mkdir True True (Path dest) (fs w) of
             Inl e \<Rightarrow>
               (Inr False, w\<lparr>ext := x1,
                  trace := trace w @ [ImportKaggle None, Mkdir (Path dest) (Some e)],
                  stdout := stdout w @ [''[ERROR] '' @ (''Failed to download '' @ n @ '': '' @ exn_str e) @ newline]\<rparr>)
           | Inr f1 \<Rightarrow>
               (case kaggle_download env i dest f1 x1 of
                  (Some e, f2, x2) \<Rightarrow>
                    if isinstance e Exception
                    then (Inr False, w\<lparr>fs := f2, ext := x2,
                            trace := trace w @ [ImportKaggle None, Mkdir (Path dest) None,
                                                DatasetDownloadFiles i dest (Some e)],
                            stdout := stdout w @
                              [''[INFO] '' @ (''Downloading '' @ n @ '' from Kaggle...'') @ newline,
                               ''[ERROR] '' @ (''Failed to download '' @ n @ '': '' @ exn_str e) @ newline]\<rparr>)
                    else (Inl e, w\<lparr>fs := f2, ext := x2,
                            trace := trace w @ [ImportKaggle None, Mkdir (Path dest) None,
                                                DatasetDownloadFiles i dest (Some e)],
                            stdout := stdout w @
                              [''[INFO] '' @ (''Downloading '' @ n @ '' from Kaggle...'') @ newline]\<rparr>)
                | (None, f2, x2) \<Rightarrow>
                    (Inr True, w\<lparr>fs := f2, ext := x2,
                       trace := trace w @ [ImportKaggle None, Mkdir (Path dest) None,
                                           DatasetDownloadFiles i dest None],
                       stdout := stdout w @
                         [''[INFO] '' @ (''Downloading '' @ n @ '' from Kaggle...'') @ newline,
                          ''[OK] '' @ (n @ '' downloaded and extracted'') @ newline]\<rparr>))))"
proof -
  obtain r x1 where imp: "kaggle_import env (ext w) = (r, x1)"
    by (cases "kaggle_import env (ext w)")
  show ?thesis
  proof (cases r)
    case (Some e)
    with imp show ?thesis
      by (cases "isinstance e Exception")
         (simp_all add: setup_kaggle_dataset_def try_except_def seq_def andThen_def
          import_kaggle_def print_error_def print_apply return_def)
  next
    case None
    show ?thesis
    proof (cases "mkdir True True (Path dest) (fs w)")
      case (Inl e)
      with None imp mkdir_error_Exception [OF Inl] show ?thesis
        by (simp add: setup_kaggle_dataset_def try_except_def seq_def andThen_def
            import_kaggle_def path_mkdir_def print_error_def print_apply return_def Let_def)
    next
      case (Inr f1)
      obtain r2 f2 x2 where dl: "kaggle_download env i dest f1 x1 = (r2, f2, x2)"
        by (cases "kaggle_download env i dest f1 x1") auto
      show ?thesis
      proof (cases r2)
        case None2: None
        with None imp Inr dl show ?thesis
          by (simp add: setup_kaggle_dataset_def try_except_def seq_def andThen_def
              import_kaggle_def path_mkdir_def dataset_download_files_def print_info_def
              print_success_def print_apply return_def Let_def)
      next
        case (Some e)
        with None imp Inr dl show ?thesis
          by (cases "isinstance e Exception")
             (simp_all add: setup_kaggle_dataset_def try_except_def seq_def andThen_def
              import_kaggle_def path_mkdir_def dataset_download_files_def print_info_def
              print_error_def print_success_def print_apply return_def Let_def)
      qed
    qed
  qed
qed

subsection \<open>What the verification prints\<close>

lemma verify_datasets_printed:
  "printed w (snd (verify_datasets w)) =
     [newline @ replicate 70 CHR ''='' @ newline,
      center 70 ''Verification'' @ newline,
      replicate 70 CHR ''='' @ newline @ newline]
     @ map (verify_line (fs w)) required_files"
  by (simp add: printed_def verify_datasets_apply)

lemma verify_line_in_printed:
  "r \<in> set required_files \<Longrightarrow> verify_line (fs w) r \<in> set (printed w (snd (verify_datasets w)))"
  by (simp add: verify_datasets_printed)

lemma unpopulated_no_entry: "unpopulated f p \<Longrightarrow> \<not> path_exists f (p @ [c])"
  by (auto simp: unpopulated_def path_exists_def resolve_append split: sum.splits node.splits)

lemma mkdir_netflix_prize_fresh:
  "mkdir True True (Path ''datasets/Netflix/netflix_prize'') fs_empty =
     Inr (Dir [(''datasets'', Dir [(''Netflix'', Dir [(''netflix_prize'', Dir [])])])])"
  by (simp add: Path_destinations fs_empty_def mkdir.simps os_mkdir_def isinstance_def
      issubclass_def file_not_found_error_def os_error_def)

subsection \<open>Kaggle routines without API access\<close>


lemma populated_cases: "populated f p \<or> unpopulated f p \<or> resolve f p = Inr File"
  by (auto simp: populated_def unpopulated_def split: sum.splits node.splits)

lemma populated_not_unpopulated: "populated f p \<Longrightarrow> \<not> unpopulated f p"
  by (auto simp: populated_def unpopulated_def split: sum.splits node.splits)

lemma printed_append [simp]: "printed w (w'\<lparr>stdout := stdout w @ new\<rparr>) = new"
  by (simp add: printed_def)

lemma block_apply:
  "block [] w = (Inr (), w)"
  "block (m # ms) w = (case m w of (Inl e, w') \<Rightarrow> (Inl e, w') | (Inr v, w') \<Rightarrow> block ms w')"
  by (simp_all add: return_def seq_def andThen_def)

lemma setup_tmdb_dataset_manual:
  "unpopulated (fs w) (Path ''datasets/TMDB'') \<Longrightarrow>
   setup_tmdb_dataset env False w =
     (Inr (), w\<lparr>stdout := stdout w @
        [newline @ replicate 70 CHR ''='' @ newline,
         center 70 ''TMDB Dataset'' @ newline,
         replicate 70 CHR ''='' @ newline @ newline,
         ''[WARNING] Kaggle API not configured - Manual download required'' @ newline,
         ''[INFO] TMDB Movies:'' @ newline,
         ''  1. Go to: https://www.kaggle.com/datasets/asaniczka/tmdb-movies-dataset-2023-930k-movies'' @ newline,
         ''  2. Click 'Download' button (requires Kaggle login)'' @ newline,
         ''  3. Extract TMDB_movie_dataset_v11.csv to: datasets/TMDB/'' @ newline]\<rparr>)"
  by (simp add: setup_tmdb_dataset_def seq_def andThen_def print_header_apply
      check_dataset_exists_unpopulated block_apply print_warning_def print_info_def print_apply
      return_def)

lemma setup_anime_dataset_manual:
  "unpopulated (fs w) (Path ''datasets/anime'') \<Longrightarrow>
   setup_anime_dataset env False w =
     (Inr (), w\<lparr>stdout := stdout w @
        [newline @ replicate 70 CHR ''='' @ newline,
         center 70 ''MyAnimeList Dataset'' @ newline,
         replicate 70 CHR ''='' @ newline @ newline,
         ''[WARNING] Kaggle API not configured - Manual download required'' @ newline,
         ''[INFO] MyAnimeList:'' @ newline,
         ''  1. Go to: https://www.kaggle.com/datasets/hernan4444/anime-recommendation-database-2020'' @ newline,
         ''  2. Click 'Download' button (requires Kaggle login)'' @ newline,
         ''  3. Extract all CSV files to: datasets/anime/'' @ newline]\<rparr>)"
  by (simp add: setup_anime_dataset_def seq_def andThen_def print_header_apply
      check_dataset_exists_unpopulated block_apply print_warning_def print_info_def print_apply
      return_def)

lemma setup_netflix_datasets_manual_both:
  "unpopulated (fs w) (Path ''datasets/Netflix/netflix'') \<Longrightarrow>
   unpopulated (fs w) (Path ''datasets/Netflix/netflix_prize'') \<Longrightarrow>
   setup_netflix_datasets env False w =
     (Inr (), w\<lparr>stdout := stdout w @
        [newline @ replicate 70 CHR ''='' @ newline,
         center 70 ''Netflix Datasets'' @ newline,
         replicate 70 CHR ''='' @ newline @ newline,
         ''[WARNING] Kaggle API not configured - Manual download required'' @ newline,
         ''[INFO] Netflix Shows:'' @ newline,
         ''  1. Go to: https://www.kaggle.com/datasets/shivamb/netflix-shows'' @ newline,
         ''  2. Click 'Download' button (requires Kaggle login)'' @ newline,
         ''  3. Extract netflix_titles.csv to: datasets/Netflix/netflix/'' @ newline,
         newline,
         ''[INFO] Netflix Prize:'' @ newline,
         ''  1. Go to: https://www.kaggle.com/datasets/netflix-inc/netflix-prize-data'' @ newline,
         ''  2. Click 'Download' button (requires Kaggle login)'' @ newline,
         ''  3. Extract all files to: datasets/Netflix/netflix_prize/'' @ newline]\<rparr>)"
  by (simp add: setup_netflix_datasets_def seq_def andThen_def print_header_apply
      check_dataset_exists_unpopulated block_apply print_warning_def print_info_def print_apply
      if_then_def return_def)

lemma setup_netflix_datasets_manual_shows:
  "unpopulated (fs w) (Path ''datasets/Netflix/netflix'') \<Longrightarrow>
   populated (fs w) (Path ''datasets/Netflix/netflix_prize'') \<Longrightarrow>
   setup_netflix_datasets env False w =
     (Inr (), w\<lparr>stdout := stdout w @
        [newline @ replicate 70 CHR ''='' @ newline,
         center 70 ''Netflix Datasets'' @ newline,
         replicate 70 CHR ''='' @ newline @ newline,
         ''[OK] Netflix Prize: Already exists'' @ newline,
         ''[WARNING] Kaggle API not configured - Manual download required'' @ newline,
         ''[INFO] Netflix Shows:'' @ newline,
         ''  1. Go to: https://www.kaggle.com/datasets/shivamb/netflix-shows'' @ newline,
         ''  2. Click 'Download' button (requires Kaggle login)'' @ newline,
         ''  3. Extract netflix_titles.csv to: datasets/Netflix/netflix/'' @ newline,
         newline]\<rparr>)"
  by (simp add: setup_netflix_datasets_def seq_def andThen_def print_header_apply
      check_dataset_exists_unpopulated check_dataset_exists_populated block_apply
      print_warning_def print_info_def print_apply if_then_def return_def)

lemma setup_netflix_datasets_manual_prize:
  "populated (fs w) (Path ''datasets/Netflix/netflix'') \<Longrightarrow>
   unpopulated (fs w) (Path ''datasets/Netflix/netflix_prize'') \<Longrightarrow>
   setup_netflix_datasets env False w =
     (Inr (), w\<lparr>stdout := stdout w @
        [newline @ replicate 70 CHR ''='' @ newline,
         center 70 ''Netflix Datasets'' @ newline,
         replicate 70 CHR ''='' @ newline @ newline,
         ''[OK] Netflix Shows: Already exists'' @ newline,
         ''[WARNING] Kaggle API not configured - Manual download required'' @ newline,
         ''[INFO] Netflix Prize:'' @ newline,
         ''  1. Go to: https://www.kaggle.com/datasets/netflix-inc/netflix-prize-data'' @ newline,
         ''  2. Click 'Download' button (requires Kaggle login)'' @ newline,
         ''  3. Extract all files to: datasets/Netflix/netflix_prize/'' @ newline]\<rparr>)"
  by (simp add: setup_netflix_datasets_def seq_def andThen_def print_header_apply
      check_dataset_exists_unpopulated check_dataset_exists_populated block_apply
      print_warning_def print_info_def print_apply if_then_def return_def)

subsection \<open>One turn of the MovieLens loop\<close>


lemma path_unlink_facts:
  "trace (snd (path_unlink p w)) = trace w @ [Unlink p (case unlink (fs w) p of Inl e \<Rightarrow> Some e | Inr f \<Rightarrow> None)]
   \<and> stdout (snd (path_unlink p w)) = stdout w
   \<and> ext (snd (path_unlink p w)) = ext w
   \<and> (\<forall>e. fst (path_unlink p w) = Inl e \<longrightarrow> unlink (fs w) p = Inl e)"
  by (simp add: path_unlink_def split: sum.splits)

lemma setup_movielens_item_skip:
  "populated (fs w) (joinpath d (ds_extract_dir it)) \<Longrightarrow>
   setup_movielens_item env d it w =
     (Inr (), w\<lparr>stdout := stdout w @ [''[WARNING] '' @ (ds_name it @ '' already exists. Skipping...'') @ newline]\<rparr>)"
  by (simp add: setup_movielens_item_def Let_def andThen_def exists_and_any_iterdir_populated
      print_warning_def print_apply)

lemma setup_movielens_item_file:
  "resolve (fs w) (joinpath d (ds_extract_dir it)) = Inr File \<Longrightarrow>
   setup_movielens_item env d it w = (Inl (not_a_directory_error (joinpath d (ds_extract_dir it))), w)"
  by (simp add: setup_movielens_item_def Let_def andThen_def exists_and_any_iterdir_file)

text \<open>
  The calls of one turn of the loop of \<open>setup_movielens\<close> when the destination is not
  populated: the transfer; then, if it succeeded, the extraction; then, if that succeeded,
  the removal of the archive.
\<close>

lemma setup_movielens_item_download:
  assumes "unpopulated (fs w) (joinpath d (ds_extract_dir it))"
  shows "\<exists>out. performed w (snd (setup_movielens_item env d it w)) =
                   [Urlretrieve (ds_url it) (joinpath d (ds_filename it)) out]
      \<or> (\<exists>e. performed w (snd (setup_movielens_item env d it w)) =
                   [Urlretrieve (ds_url it) (joinpath d (ds_filename it)) None,
                    Extractall (joinpath d (ds_filename it)) d (Some e)])
      \<or> (\<exists>out. performed w (snd (setup_movielens_item env d it w)) =
                   [Urlretrieve (ds_url it) (joinpath d (ds_filename it)) None,
                    Extractall (joinpath d (ds_filename it)) d None,
                    Unlink (joinpath d (ds_filename it)) out])"
proof -
  let ?z = "joinpath d (ds_filename it)"
  let ?dl = "download_file env (ds_url it) ?z (ds_name it)"
  have start: "setup_movielens_item env d it w =
      andThen ?dl (\<lambda>downloaded.
        if \<not> downloaded then return ()
        else andThen (extract_zip env ?z d (ds_name it)) (\<lambda>extracted.
               if extracted then seq (path_unlink ?z) (print_success (ds_name it @ '' setup complete''))
               else return ())) w"
    using assms
    by (simp add: setup_movielens_item_def Let_def andThen_def exists_and_any_iterdir_unpopulated)
  obtain r1 w1 where dl: "?dl w = (r1, w1)" by (cases "?dl w")
  from download_file_facts [of env "ds_url it" ?z "ds_name it" w] dl obtain out where
    t1: "trace w1 = trace w @ [Urlretrieve (ds_url it) ?z out]"
    and ok1: "r1 = Inr True \<longrightarrow> out = None"
    by auto
  show ?thesis
  proof (cases "r1 = Inr True")
    case False
    then have "snd (setup_movielens_item env d it w) = w1"
      using dl by (cases r1) (auto simp: start andThen_def return_def)
    with t1 show ?thesis by (auto simp: performed_def)
  next
    case True
    with ok1 have out: "out = None" by simp
    let ?ex = "extract_zip env ?z d (ds_name it)"
    obtain r2 w2 where ex: "?ex w1 = (r2, w2)" by (cases "?ex w1")
    from extract_zip_facts [of env ?z d "ds_name it" w1] ex have
      t2: "trace w2 = trace w1 @ [Extractall ?z d (fst (zip_extractall env ?z d (fs w1) (ext w1)))]"
      and ok2: "r2 = Inr True \<longleftrightarrow> fst (zip_extractall env ?z d (fs w1) (ext w1)) = None"
      by auto
    show ?thesis
    proof (cases "r2 = Inr True")
      case False
      then have "snd (setup_movielens_item env d it w) = w2"
        using dl True ex by (cases r2) (auto simp: start andThen_def return_def)
      moreover from False ok2 obtain e where "fst (zip_extractall env ?z d (fs w1) (ext w1)) = Some e"
        by auto
      ultimately show ?thesis using t1 t2 out by (auto simp: performed_def)
    next
      case T2: True
      with ok2 have o2: "fst (zip_extractall env ?z d (fs w1) (ext w1)) = None" by simp
      obtain r3 w3 where ul: "path_unlink ?z w2 = (r3, w3)" by (cases "path_unlink ?z w2")
      from path_unlink_facts [of ?z w2] ul obtain o3 where t3: "trace w3 = trace w2 @ [Unlink ?z o3]"
        by auto
      have "trace (snd (setup_movielens_item env d it w)) = trace w3"
        using dl True ex T2 ul
        by (cases r3) (auto simp: start andThen_def seq_def print_success_def print_apply)
      with t1 t2 t3 out o2 show ?thesis by (auto simp: performed_def)
    qed
  qed
qed

subsection \<open>Reports of the verification\<close>

lemma reports_missing_marker:
  "(name, path) \<in> set required_files \<Longrightarrow> \<not> path_exists (fs w) (Path path) \<Longrightarrow> reports_missing name w"
  using verify_line_in_printed [of "(name, path)" w]
  by (simp add: reports_missing_def verify_line_def)

lemma reports_found_marker:
  "(name, path) \<in> set required_files \<Longrightarrow> path_exists (fs w) (Path path) \<Longrightarrow> reports_found name w"
  using verify_line_in_printed [of "(name, path)" w]
  by (simp add: reports_found_def verify_line_def)

lemma only_printed_stdout [simp]: "only_printed w (w\<lparr>stdout := s\<rparr>)"
  by (simp add: only_printed_def)

lemma reports_missing_stdout [simp]: "reports_missing n (w\<lparr>stdout := s\<rparr>) = reports_missing n w"
  by (simp add: reports_missing_def verify_datasets_printed)

lemma reports_found_stdout [simp]: "reports_found n (w\<lparr>stdout := s\<rparr>) = reports_found n w"
  by (simp add: reports_found_def verify_datasets_printed)

lemma tmdb_marker_missing:
  "unpopulated (fs w) (Path ''datasets/TMDB'') \<Longrightarrow> reports_missing ''TMDB'' w"
  using unpopulated_no_entry [of "fs w" "Path ''datasets/TMDB''" "''TMDB_movie_dataset_v11.csv''"]
  by (intro reports_missing_marker [where path = "''datasets/TMDB/TMDB_movie_dataset_v11.csv''"])
     (simp_all add: required_files_def Path_markers Path_destinations)

lemma anime_marker_missing:
  "unpopulated (fs w) (Path ''datasets/anime'') \<Longrightarrow> reports_missing ''MyAnimeList'' w"
  using unpopulated_no_entry [of "fs w" "Path ''datasets/anime''" "''anime.csv''"]
  by (intro reports_missing_marker [where path = "''datasets/anime/anime.csv''"])
     (simp_all add: required_files_def Path_markers Path_destinations)

lemma netflix_shows_marker_missing:
  "unpopulated (fs w) (Path ''datasets/Netflix/netflix'') \<Longrightarrow> reports_missing ''Netflix Shows'' w"
  using unpopulated_no_entry [of "fs w" "Path ''datasets/Netflix/netflix''" "''netflix_titles.csv''"]
  by (intro reports_missing_marker [where path = "''datasets/Netflix/netflix/netflix_titles.csv''"])
     (simp_all add: required_files_def Path_markers Path_destinations)

lemma netflix_prize_marker:
  "(\<not> path_exists (fs w) (Path ''datasets/Netflix/netflix_prize'') \<longrightarrow> reports_missing ''Netflix Prize'' w)
   \<and> (path_exists (fs w) (Path ''datasets/Netflix/netflix_prize'') \<longrightarrow> reports_found ''Netflix Prize'' w)"
  using reports_missing_marker [of "''Netflix Prize''" "''datasets/Netflix/netflix_prize''" w]
    reports_found_marker [of "''Netflix Prize''" "''datasets/Netflix/netflix_prize''" w]
  by (simp add: required_files_def)

lemma empty_destinations_unpopulated:
  "unpopulated (fs (start fs_empty_destinations)) (Path ''datasets/TMDB'')"
  "unpopulated (fs (start fs_empty_destinations)) (Path ''datasets/anime'')"
  "unpopulated (fs (start fs_empty_destinations)) (Path ''datasets/Netflix/netflix'')"
  "unpopulated (fs (start fs_empty_destinations)) (Path ''datasets/Netflix/netflix_prize'')"
  "path_exists (fs (start fs_empty_destinations)) (Path ''datasets/Netflix/netflix_prize'')"
  by (simp_all add: start_def fs_empty_destinations_def Path_destinations unpopulated_def
      path_exists_def)

lemma fresh_unpopulated:
  "unpopulated (fs (start fs_empty)) (Path ''datasets/TMDB'')"
  "unpopulated (fs (start fs_empty)) (Path ''datasets/anime'')"
  "unpopulated (fs (start fs_empty)) (Path ''datasets/Netflix/netflix'')"
  "unpopulated (fs (start fs_empty)) (Path ''datasets/Netflix/netflix_prize'')"
  "\<not> path_exists (fs (start fs_empty)) (Path ''datasets/Netflix/netflix_prize'')"
  by (simp_all add: start_def fs_empty_def Path_destinations unpopulated_def path_exists_def)

subsection \<open>Kaggle routines with API access\<close>





lemma setup_netflix_datasets_download_shows:
  "unpopulated (fs w) (Path ''datasets/Netflix/netflix'') \<Longrightarrow>
   populated (fs w) (Path ''datasets/Netflix/netflix_prize'') \<Longrightarrow>
   setup_netflix_datasets env True w =
     discard (setup_kaggle_dataset env ''shivamb/netflix-shows''
                ''datasets/Netflix/netflix'' ''Netflix Shows'')
       (w\<lparr>stdout := stdout w @
          [newline @ replicate 70 CHR ''='' @ newline,
           center 70 ''Netflix Datasets'' @ newline,
           replicate 70 CHR ''='' @ newline @ newline,
           ''[OK] Netflix Prize: Already exists'' @ newline]\<rparr>)"
  by (simp add: setup_netflix_datasets_def seq_def andThen_def print_header_apply
      check_dataset_exists_unpopulated check_dataset_exists_populated if_then_def return_def
      discard_def split: prod.splits sum.splits)

lemma setup_netflix_datasets_download_prize:
  "populated (fs w) (Path ''datasets/Netflix/netflix'') \<Longrightarrow>
   unpopulated (fs w) (Path ''datasets/Netflix/netflix_prize'') \<Longrightarrow>
   setup_netflix_datasets env True w =
     discard (setup_kaggle_dataset env ''netflix-inc/netflix-prize-data''
                ''datasets/Netflix/netflix_prize'' ''Netflix Prize'')
       (w\<lparr>stdout := stdout w @
          [newline @ replicate 70 CHR ''='' @ newline,
           center 70 ''Netflix Datasets'' @ newline,
           replicate 70 CHR ''='' @ newline @ newline,
           ''[OK] Netflix Shows: Already exists'' @ newline]\<rparr>)"
  by (simp add: setup_netflix_datasets_def seq_def andThen_def print_header_apply
      check_dataset_exists_unpopulated check_dataset_exists_populated if_then_def return_def
      discard_def split: prod.splits sum.splits)

lemma discard_frame:
  "fs (snd (discard m w)) = fs (snd (m w))"
  "trace (snd (discard m w)) = trace (snd (m w))"
  "ext (snd (discard m w)) = ext (snd (m w))"
  "stdout (snd (discard m w)) = stdout (snd (m w))"
  by (auto simp: discard_def andThen_def return_def split: prod.splits sum.splits)

lemma performed_stdout [simp]: "performed (w\<lparr>stdout := s\<rparr>) w' = performed w w'"
  by (simp add: performed_def)

lemma performed_discard [simp]: "performed w (snd (discard m w')) = performed w (snd (m w'))"
  by (simp add: performed_def discard_frame)







subsection \<open>Calls added to the trace\<close>

lemma performed_trans:
  "prefix (trace w) (trace w1) \<Longrightarrow> prefix (trace w1) (trace w2) \<Longrightarrow>
   performed w w2 = performed w w1 @ performed w1 w2"
  by (auto simp: performed_def prefix_def)

lemma performed_same [simp]: "performed w w = []"
  by (simp add: performed_def)

lemma performed_snoc [simp]: "performed w (w'\<lparr>trace := trace w @ evs\<rparr>) = evs"
  by (simp add: performed_def)

lemma performed_stdout_update [simp]: "performed w (w'\<lparr>stdout := s\<rparr>) = performed w w'"
  by (simp add: performed_def)

subsection \<open>Rules for the calls a statement performs\<close>

lemma performsI:
  "(\<And>w. prefix (trace w) (trace (snd (m w)))) \<Longrightarrow> (\<And>w. P (performed w (snd (m w)))) \<Longrightarrow> performs m P"
  by (simp add: performs_def)

lemma performs_prefix: "performs m P \<Longrightarrow> prefix (trace w) (trace (snd (m w)))"
  by (simp add: performs_def)

lemma performs_holds: "performs m P \<Longrightarrow> P (performed w (snd (m w)))"
  by (simp add: performs_def)

lemma performs_return: "P [] \<Longrightarrow> performs (return v) P"
  by (simp add: performs_def return_def)

lemma performs_print: "P [] \<Longrightarrow> performs (print s) P"
  by (simp add: performs_def print_apply)

lemma performs_print_header: "P [] \<Longrightarrow> performs (print_header s) P"
  by (simp add: performs_def print_header_apply)

lemma performs_andThen:
  assumes m: "performs m P" and k: "\<And>v. performs (k v) P"
    and app: "\<And>a b. P a \<Longrightarrow> P b \<Longrightarrow> P (a @ b)"
  shows "performs (andThen m k) P"
proof (rule performsI)
  fix w
  obtain r w1 where mw: "m w = (r, w1)" by (cases "m w")
  from performs_prefix [OF m, of w] performs_holds [OF m, of w] mw
  have p1: "prefix (trace w) (trace w1)" and h1: "P (performed w w1)" by simp_all
  show "prefix (trace w) (trace (snd (andThen m k w)))"
  proof (cases r)
    case (Inl e)
    with mw p1 show ?thesis by (simp add: andThen_def)
  next
    case (Inr v)
    from performs_prefix [OF k, of w1 v] p1 have "prefix (trace w) (trace (snd (k v w1)))"
      using prefix_order.trans by blast
    with Inr mw show ?thesis by (simp add: andThen_def)
  qed
  show "P (performed w (snd (andThen m k w)))"
  proof (cases r)
    case (Inl e)
    with mw h1 show ?thesis by (simp add: andThen_def)
  next
    case (Inr v)
    from performed_trans [OF p1 performs_prefix [OF k, of w1 v]]
    have "performed w (snd (k v w1)) = performed w w1 @ performed w1 (snd (k v w1))" .
    with app [OF h1 performs_holds [OF k, of w1 v]] Inr mw show ?thesis
      by (simp add: andThen_def)
  qed
qed

lemma performs_seq:
  "performs m P \<Longrightarrow> performs n P \<Longrightarrow> (\<And>a b. P a \<Longrightarrow> P b \<Longrightarrow> P (a @ b)) \<Longrightarrow> performs (seq m n) P"
  unfolding seq_def by (rule performs_andThen)

lemma performs_if:
  "(c \<Longrightarrow> performs a P) \<Longrightarrow> (\<not> c \<Longrightarrow> performs b P) \<Longrightarrow> performs (if c then a else b) P"
  by simp

lemma performs_for_each:
  assumes b: "\<And>x. performs (body x) P" and nil: "P []"
    and app: "\<And>a b. P a \<Longrightarrow> P b \<Longrightarrow> P (a @ b)"
  shows "performs (for_each body xs) P"
proof (induction xs)
  case Nil
  show ?case by (simp add: performs_return nil)
next
  case (Cons x xs)
  show ?case by (simp add: performs_seq [OF b Cons.IH app])
qed

subsection \<open>Unlink only after a successful extraction\<close>

lemma unlink_guarded_weaken: "unlink_guarded None evs \<Longrightarrow> unlink_guarded p evs"
  by (cases "(None :: event option, evs)" rule: unlink_guarded.cases) auto

lemma unlink_guarded_append:
  "unlink_guarded p xs \<Longrightarrow> unlink_guarded None ys \<Longrightarrow> unlink_guarded p (xs @ ys)"
proof (induction p xs rule: unlink_guarded.induct)
  case (1 prev)
  then show ?case by (simp add: unlink_guarded_weaken)
qed auto

lemma setup_movielens_item_shapes:
  "performed w (snd (setup_movielens_item env d it w)) = []
   \<or> (\<exists>out. performed w (snd (setup_movielens_item env d it w)) =
                   [Urlretrieve (ds_url it) (joinpath d (ds_filename it)) out])
   \<or> (\<exists>e. performed w (snd (setup_movielens_item env d it w)) =
                   [Urlretrieve (ds_url it) (joinpath d (ds_filename it)) None,
                    Extractall (joinpath d (ds_filename it)) d (Some e)])
   \<or> (\<exists>out. performed w (snd (setup_movielens_item env d it w)) =
                   [Urlretrieve (ds_url it) (joinpath d (ds_filename it)) None,
                    Extractall (joinpath d (ds_filename it)) d None,
                    Unlink (joinpath d (ds_filename it)) out])"
proof -
  from populated_cases [of "fs w" "joinpath d (ds_extract_dir it)"] show ?thesis
  proof (elim disjE)
    assume "populated (fs w) (joinpath d (ds_extract_dir it))"
    then show ?thesis by (simp add: setup_movielens_item_skip performed_def)
  next
    assume "unpopulated (fs w) (joinpath d (ds_extract_dir it))"
    from setup_movielens_item_download [OF this, of env] show ?thesis by blast
  next
    assume "resolve (fs w) (joinpath d (ds_extract_dir it)) = Inr File"
    then show ?thesis by (simp add: setup_movielens_item_file)
  qed
qed

lemma setup_movielens_item_prefix:
  "prefix (trace w) (trace (snd (setup_movielens_item env d it w)))"
proof -
  have "\<exists>evs. performed w (snd (setup_movielens_item env d it w)) = evs" by simp
  show ?thesis
  proof (cases "unpopulated (fs w) (joinpath d (ds_extract_dir it))")
    case False
    with populated_cases [of "fs w" "joinpath d (ds_extract_dir it)"] show ?thesis
      by (auto simp: setup_movielens_item_skip setup_movielens_item_file)
  next
    case True
    let ?z = "joinpath d (ds_filename it)"
    let ?dl = "download_file env (ds_url it) ?z (ds_name it)"
    let ?ex = "extract_zip env ?z d (ds_name it)"
    have start: "setup_movielens_item env d it w =
      andThen ?dl (\<lambda>downloaded.
        if \<not> downloaded then return ()
        else andThen ?ex (\<lambda>extracted.
               if extracted then seq (path_unlink ?z) (print_success (ds_name it @ '' setup complete''))
               else return ())) w"
      using True
      by (simp add: setup_movielens_item_def Let_def andThen_def exists_and_any_iterdir_unpopulated)
    have a: "performs ?dl (\<lambda>evs. True)"
      using download_file_facts [of env "ds_url it" ?z "ds_name it"]
      by (intro performsI) (auto simp: prefix_def)
    have b: "performs ?ex (\<lambda>evs. True)"
      using extract_zip_facts [of env ?z d "ds_name it"]
      by (intro performsI) (auto simp: prefix_def)
    have c: "performs (path_unlink ?z) (\<lambda>evs. True)"
      using path_unlink_facts [of ?z]
      by (intro performsI) (auto simp: prefix_def)
    have "performs (andThen ?dl (\<lambda>downloaded.
        if \<not> downloaded then return ()
        else andThen ?ex (\<lambda>extracted.
               if extracted then seq (path_unlink ?z) (print_success (ds_name it @ '' setup complete''))
               else return ()))) (\<lambda>evs. True)"
      by (intro performs_andThen performs_if a b performs_seq c performs_return)
         (simp_all add: print_success_def performs_print)
    from performs_prefix [OF this, of w] show ?thesis by (simp add: start)
  qed
qed

lemma setup_movielens_item_guarded:
  "performs (setup_movielens_item env d it) (unlink_guarded None)"
proof (rule performsI)
  fix w
  show "prefix (trace w) (trace (snd (setup_movielens_item env d it w)))"
    by (rule setup_movielens_item_prefix)
  from setup_movielens_item_shapes [of w env d it]
  show "unlink_guarded None (performed w (snd (setup_movielens_item env d it w)))"
    by auto
qed

lemma path_mkdir_performs:
  "P [Mkdir p None] \<Longrightarrow> (\<And>e. P [Mkdir p (Some e)]) \<Longrightarrow> performs (path_mkdir a b p) P"
  by (auto simp: performs_def path_mkdir_def split: sum.splits)

lemma setup_movielens_guarded:
  "performs (setup_movielens env) (unlink_guarded None)"
  unfolding setup_movielens_def Let_def
  by (intro performs_seq performs_print_header path_mkdir_performs performs_for_each
      setup_movielens_item_guarded unlink_guarded_append) simp_all

subsection \<open>Running the script on a concrete state\<close>

text \<open>The equations that unfold a run of the script step by step.\<close>

lemmas run_simps =
  andThen_def seq_def return_def raise_def try_except_def sys_stdout_write_def
  print_def print_header_def print_success_def print_info_def print_warning_def print_error_def
  get_fs_def path_mkdir_def path_unlink_def path_iterdir_def exists_and_any_iterdir_def
  urlretrieve_def extractall_def import_kaggle_def dataset_download_files_def
  download_file_def extract_zip_def setup_movielens_item_def setup_movielens_def
  check_kaggle_api_def check_dataset_exists_def setup_kaggle_dataset_def if_then_def discard_def
  setup_netflix_datasets_def setup_tmdb_dataset_def setup_anime_dataset_def
  required_files_def verify_datasets_def print_kaggle_setup_instructions_def main_def
  isinstance_def issubclass_def Path_def joinpath_def path_exists_def is_dir_def iterdir_def
  os_mkdir_def unlink_def mkdir.simps movielens_datasets_def
  file_exists_error_def file_not_found_error_def not_a_directory_error_def is_a_directory_error_def
  os_error_def Let_def reporthook_def int_trunc_div_def show_int_def show_nat.simps
  performed_def printed_def start_def fs_empty_def

lemma setup_movielens_item_unpopulated:
  "unpopulated (fs w) (joinpath d (ds_extract_dir it)) \<Longrightarrow>
   setup_movielens_item env d it w =
      andThen (download_file env (ds_url it) (joinpath d (ds_filename it)) (ds_name it))
        (\<lambda>downloaded.
           if \<not> downloaded then return ()
           else andThen (extract_zip env (joinpath d (ds_filename it)) d (ds_name it))
                  (\<lambda>extracted.
                     if extracted
                     then seq (path_unlink (joinpath d (ds_filename it)))
                              (print_success (ds_name it @ '' setup complete''))
                     else return ())) w"
  by (simp add: setup_movielens_item_def Let_def andThen_def exists_and_any_iterdir_unpopulated)

lemma run_movielens_downloads:
  "performed (start fs_empty) (snd (setup_movielens env_no_credentials (start fs_empty))) =
     [Mkdir [''datasets'', ''MovieLens''] None,
      Urlretrieve ''https://files.grouplens.org/datasets/movielens/ml-1m.zip''
        [''datasets'', ''MovieLens'', ''ml-1m.zip''] None,
      Extractall [''datasets'', ''MovieLens'', ''ml-1m.zip''] [''datasets'', ''MovieLens''] None,
      Unlink [''datasets'', ''MovieLens'', ''ml-1m.zip''] None,
      Urlretrieve ''https://files.grouplens.org/datasets/movielens/ml-25m.zip''
        [''datasets'', ''MovieLens'', ''ml-25m.zip''] None,
      Extractall [''datasets'', ''MovieLens'', ''ml-25m.zip''] [''datasets'', ''MovieLens''] None,
      Unlink [''datasets'', ''MovieLens'', ''ml-25m.zip''] None]"
  by (simp add: run_simps env_no_credentials_def unpack_def)

lemma run_movielens_corrupt_archive:
  "performed (start fs_empty) (snd (setup_movielens env_corrupt_archive (start fs_empty))) =
     [Mkdir [''datasets'', ''MovieLens''] None,
      Urlretrieve ''https://files.grouplens.org/datasets/movielens/ml-1m.zip''
        [''datasets'', ''MovieLens'', ''ml-1m.zip''] None,
      Extractall [''datasets'', ''MovieLens'', ''ml-1m.zip''] [''datasets'', ''MovieLens'']
        (Some (Exn BadZipFile ''File is not a zip file'')),
      Urlretrieve ''https://files.grouplens.org/datasets/movielens/ml-25m.zip''
        [''datasets'', ''MovieLens'', ''ml-25m.zip''] None,
      Extractall [''datasets'', ''MovieLens'', ''ml-25m.zip''] [''datasets'', ''MovieLens'']
        (Some (Exn BadZipFile ''File is not a zip file''))]
   \<and> fs (snd (setup_movielens env_corrupt_archive (start fs_empty))) =
       Dir [(''datasets'', Dir [(''MovieLens'', Dir [(''ml-1m.zip'', File), (''ml-25m.zip'', File)])])]"
  by (simp add: run_simps env_corrupt_archive_def env_no_credentials_def unpack_def)

subsection \<open>Populated destinations\<close>

lemma resolve_remove_diverge:
  "c \<noteq> c' \<Longrightarrow> resolve (remove (pre @ c # r) f) (pre @ c' # r') = resolve f (pre @ c' # r')"
proof (induction pre arbitrary: f)
  case Nil
  show ?case
  proof (cases f)
    case File
    then show ?thesis by simp
  next
    case (Dir es)
    with Nil show ?thesis
      by (auto simp: delete_conv' update_conv' split: option.splits)
  qed
next
  case (Cons a pre)
  show ?case
  proof (cases f)
    case File
    then show ?thesis by simp
  next
    case (Dir es)
    with Cons show ?thesis
      by (auto simp: update_conv' split: option.splits)
  qed
qed

lemma unlink_keeps_populated:
  "unlink f (pre @ [c]) = Inr f' \<Longrightarrow> c \<noteq> c' \<Longrightarrow> populated f (pre @ [c']) \<Longrightarrow> populated f' (pre @ [c'])"
  using resolve_remove_diverge [of c c' pre "[]" f "[]"]
  by (auto simp: unlink_def populated_def split: sum.splits node.splits errno.splits)

lemma populated_parent_is_dir: "populated f (p @ [c]) \<Longrightarrow> is_dir f p"
  by (cases "resolve f p"; cases "projr (resolve f p)")
     (auto simp: populated_def is_dir_def resolve_append)

lemma path_mkdir_existing:
  "is_dir (fs w) p \<Longrightarrow> path_mkdir a True p w = (Inr (), w\<lparr>trace := trace w @ [Mkdir p None]\<rparr>)"
  by (simp add: path_mkdir_def mkdir_existing_dir)

lemma movielens_items:
  "movielens_datasets = [movielens_1m, movielens_25m]"
  "ds_name movielens_1m = ''MovieLens 1M''"
  "ds_url movielens_1m = ''https://files.grouplens.org/datasets/movielens/ml-1m.zip''"
  "joinpath [''datasets'', ''MovieLens''] (ds_filename movielens_1m) = [''datasets'', ''MovieLens''] @ [''ml-1m.zip'']"
  "joinpath [''datasets'', ''MovieLens''] (ds_extract_dir movielens_1m) = [''datasets'', ''MovieLens''] @ [''ml-1m'']"
  "ds_name movielens_25m = ''MovieLens 25M''"
  "ds_url movielens_25m = ''https://files.grouplens.org/datasets/movielens/ml-25m.zip''"
  "joinpath [''datasets'', ''MovieLens''] (ds_filename movielens_25m) = [''datasets'', ''MovieLens''] @ [''ml-25m.zip'']"
  "joinpath [''datasets'', ''MovieLens''] (ds_extract_dir movielens_25m) = [''datasets'', ''MovieLens''] @ [''ml-25m'']"
  by (simp_all add: movielens_1m_def movielens_25m_def movielens_datasets_def joinpath_def
      Path_movielens_items)

text \<open>\<open>setup_movielens\<close> when \<^verbatim>\<open>datasets/MovieLens\<close> is a directory already.\<close>

lemma setup_movielens_existing_dir:
  "is_dir (fs w) [''datasets'', ''MovieLens''] \<Longrightarrow>
   setup_movielens env w =
     seq (setup_movielens_item env [''datasets'', ''MovieLens''] movielens_1m)
         (setup_movielens_item env [''datasets'', ''MovieLens''] movielens_25m)
       (w\<lparr>stdout := stdout w @
            [newline @ replicate 70 CHR ''='' @ newline,
             center 70 ''MovieLens Datasets'' @ newline,
             replicate 70 CHR ''='' @ newline @ newline],
          trace := trace w @ [Mkdir [''datasets'', ''MovieLens''] None]\<rparr>)"
  by (simp add: setup_movielens_def Let_def Path_movielens seq_def andThen_def print_header_apply
      path_mkdir_existing movielens_items(1) return_def split: prod.splits sum.splits)

lemma setup_movielens_all_populated:
  assumes "populated (fs w) ([''datasets'', ''MovieLens''] @ [''ml-1m''])"
    and "populated (fs w) ([''datasets'', ''MovieLens''] @ [''ml-25m''])"
  shows "setup_movielens env w =
     (Inr (), w\<lparr>stdout := stdout w @
            [newline @ replicate 70 CHR ''='' @ newline,
             center 70 ''MovieLens Datasets'' @ newline,
             replicate 70 CHR ''='' @ newline @ newline,
             ''[WARNING] MovieLens 1M already exists. Skipping...'' @ newline,
             ''[WARNING] MovieLens 25M already exists. Skipping...'' @ newline],
          trace := trace w @ [Mkdir [''datasets'', ''MovieLens''] None]\<rparr>)"
  using assms populated_parent_is_dir [OF assms(1)]
  by (simp add: setup_movielens_existing_dir seq_def andThen_def setup_movielens_item_skip
      movielens_items)

lemma path_unlink_fs:
  "fs (snd (path_unlink p w)) = (case unlink (fs w) p of Inl e \<Rightarrow> fs w | Inr f' \<Rightarrow> f')"
  by (simp add: path_unlink_def split: sum.splits)

text \<open>The calls of a turn of the loop belong to its item, not to the other one.\<close>

lemma setup_movielens_item_25m_events:
  "performs (setup_movielens_item env [''datasets'', ''MovieLens''] movielens_25m)
     (list_all (\<lambda>ev. \<not> movielens_event_of [''datasets'', ''MovieLens''] movielens_1m ev))"
proof (rule performsI)
  fix w :: "'a world"
  show "prefix (trace w) (trace (snd (setup_movielens_item env [''datasets'', ''MovieLens''] movielens_25m w)))"
    by (rule setup_movielens_item_prefix)
  from setup_movielens_item_shapes [of w env "[''datasets'', ''MovieLens'']" movielens_25m]
  show "list_all (\<lambda>ev. \<not> movielens_event_of [''datasets'', ''MovieLens''] movielens_1m ev)
          (performed w (snd (setup_movielens_item env [''datasets'', ''MovieLens''] movielens_25m w)))"
    by (auto simp: movielens_items)
qed

lemma setup_movielens_item_1m_events:
  "performs (setup_movielens_item env [''datasets'', ''MovieLens''] movielens_1m)
     (list_all (\<lambda>ev. \<not> movielens_event_of [''datasets'', ''MovieLens''] movielens_25m ev))"
proof (rule performsI)
  fix w :: "'a world"
  show "prefix (trace w) (trace (snd (setup_movielens_item env [''datasets'', ''MovieLens''] movielens_1m w)))"
    by (rule setup_movielens_item_prefix)
  from setup_movielens_item_shapes [of w env "[''datasets'', ''MovieLens'']" movielens_1m]
  show "list_all (\<lambda>ev. \<not> movielens_event_of [''datasets'', ''MovieLens''] movielens_25m ev)
          (performed w (snd (setup_movielens_item env [''datasets'', ''MovieLens''] movielens_1m w)))"
    by (auto simp: movielens_items)
qed

lemma setup_movielens_first_populated:
  assumes "populated (fs w) ([''datasets'', ''MovieLens''] @ [''ml-1m''])"
  shows "list_all (\<lambda>ev. \<not> movielens_event_of [''datasets'', ''MovieLens''] movielens_1m ev)
           (performed w (snd (setup_movielens env w)))"
proof -
  let ?D = "[''datasets'', ''MovieLens'']"
  let ?w1 = "w\<lparr>stdout := stdout w @
            [newline @ replicate 70 CHR ''='' @ newline,
             center 70 ''MovieLens Datasets'' @ newline,
             replicate 70 CHR ''='' @ newline @ newline],
          trace := trace w @ [Mkdir ?D None]\<rparr>"
  let ?w2 = "?w1\<lparr>stdout := stdout ?w1 @ [''[WARNING] '' @ (ds_name movielens_1m @ '' already exists. Skipping...'') @ newline]\<rparr>"
  have p1: "populated (fs ?w1) (joinpath ?D (ds_extract_dir movielens_1m))"
    using assms by (simp add: movielens_items)
  have eq: "setup_movielens env w = setup_movielens_item env ?D movielens_25m ?w2"
    using populated_parent_is_dir [OF assms]
    by (simp add: setup_movielens_existing_dir seq_def andThen_def
        setup_movielens_item_skip [OF p1])
  have pre: "prefix (trace w) (trace ?w2)" by simp
  note it = setup_movielens_item_25m_events [of env]
  from performed_trans [OF pre performs_prefix [OF it, of ?w2]] performs_holds [OF it, of ?w2]
  show ?thesis by (simp add: eq performed_def)
qed

lemma setup_movielens_item_1m_keeps:
  assumes k: "keeps_populated env ([''datasets'', ''MovieLens''] @ [''ml-25m''])"
    and p: "populated (fs w) ([''datasets'', ''MovieLens''] @ [''ml-25m''])"
  shows "populated (fs (snd (setup_movielens_item env [''datasets'', ''MovieLens''] movielens_1m w)))
           ([''datasets'', ''MovieLens''] @ [''ml-25m''])"
proof -
  let ?D = "[''datasets'', ''MovieLens'']"
  let ?P2 = "?D @ [''ml-25m'']"
  let ?z = "joinpath ?D (ds_filename movielens_1m)"
  have zeq: "?z = ?D @ [''ml-1m.zip'']" by (simp add: movielens_items)
  let ?dl = "download_file env (ds_url movielens_1m) ?z (ds_name movielens_1m)"
  let ?ex = "extract_zip env ?z ?D (ds_name movielens_1m)"
  from populated_cases [of "fs w" "joinpath ?D (ds_extract_dir movielens_1m)"] show ?thesis
  proof (elim disjE)
    assume "populated (fs w) (joinpath ?D (ds_extract_dir movielens_1m))"
    with p show ?thesis by (simp add: setup_movielens_item_skip)
  next
    assume "resolve (fs w) (joinpath ?D (ds_extract_dir movielens_1m)) = Inr File"
    with p show ?thesis by (simp add: setup_movielens_item_file)
  next
    assume u: "unpopulated (fs w) (joinpath ?D (ds_extract_dir movielens_1m))"
    note start = setup_movielens_item_unpopulated [OF u, of env]
    obtain r1 w1 where dl: "?dl w = (r1, w1)" by (cases "?dl w")
    from download_file_facts [of env "ds_url movielens_1m" ?z "ds_name movielens_1m" w] dl k p
    have p1: "populated (fs w1) ?P2" by (simp add: keeps_populated_def)
    show ?thesis
    proof (cases "r1 = Inr True")
      case False
      then have "snd (setup_movielens_item env ?D movielens_1m w) = w1"
        using dl by (cases r1) (auto simp: start andThen_def return_def)
      with p1 show ?thesis by simp
    next
      case True
      obtain r2 w2 where ex: "?ex w1 = (r2, w2)" by (cases "?ex w1")
      from extract_zip_facts [of env ?z ?D "ds_name movielens_1m" w1] ex k p1
      have p2: "populated (fs w2) ?P2" by (simp add: keeps_populated_def)
      show ?thesis
      proof (cases "r2 = Inr True")
        case False
        then have "snd (setup_movielens_item env ?D movielens_1m w) = w2"
          using dl True ex by (cases r2) (auto simp: start andThen_def return_def)
        with p2 show ?thesis by simp
      next
        case T2: True
        have "fs (snd (setup_movielens_item env ?D movielens_1m w)) = fs (snd (path_unlink ?z w2))"
          using dl True ex T2
          by (cases "path_unlink ?z w2"; cases "fst (path_unlink ?z w2)")
             (auto simp: start andThen_def seq_def print_success_def print_apply)
        moreover have "populated (fs (snd (path_unlink ?z w2))) ?P2"
          using p2 unlink_keeps_populated [of "fs w2" ?D "''ml-1m.zip''" _ "''ml-25m''"]
          by (auto simp: path_unlink_fs zeq split: sum.splits)
        ultimately show ?thesis by simp
      qed
    qed
  qed
qed

lemma setup_movielens_second_populated:
  assumes k: "keeps_populated env ([''datasets'', ''MovieLens''] @ [''ml-25m''])"
    and p: "populated (fs w) ([''datasets'', ''MovieLens''] @ [''ml-25m''])"
  shows "list_all (\<lambda>ev. \<not> movielens_event_of [''datasets'', ''MovieLens''] movielens_25m ev)
           (performed w (snd (setup_movielens env w)))"
proof -
  let ?D = "[''datasets'', ''MovieLens'']"
  let ?w1 = "w\<lparr>stdout := stdout w @
            [newline @ replicate 70 CHR ''='' @ newline,
             center 70 ''MovieLens Datasets'' @ newline,
             replicate 70 CHR ''='' @ newline @ newline],
          trace := trace w @ [Mkdir ?D None]\<rparr>"
  let ?i1 = "setup_movielens_item env ?D movielens_1m"
  let ?i2 = "setup_movielens_item env ?D movielens_25m"
  have eq: "setup_movielens env w = seq ?i1 ?i2 ?w1"
    using populated_parent_is_dir [OF p] by (simp add: setup_movielens_existing_dir)
  obtain r w2 where i1: "?i1 ?w1 = (r, w2)" by (cases "?i1 ?w1")
  have p1: "populated (fs ?w1) (?D @ [''ml-25m''])" using p by simp
  from setup_movielens_item_1m_keeps [OF k p1] i1 have p2: "populated (fs w2) (?D @ [''ml-25m''])"
    by simp
  note ev = setup_movielens_item_1m_events [of env]
  from performs_prefix [OF ev, of ?w1] performs_holds [OF ev, of ?w1] i1
  have pre: "prefix (trace ?w1) (trace w2)"
    and h: "list_all (\<lambda>ev. \<not> movielens_event_of ?D movielens_25m ev) (performed ?w1 w2)"
    by simp_all
  have pre0: "prefix (trace w) (trace ?w1)" by simp
  have "performed w w2 = [Mkdir ?D None] @ performed ?w1 w2"
    using performed_trans [OF pre0 pre] by (simp add: performed_def)
  with h have h2: "list_all (\<lambda>ev. \<not> movielens_event_of ?D movielens_25m ev) (performed w w2)"
    by simp
  show ?thesis
  proof (cases r)
    case (Inl e)
    with i1 h2 show ?thesis by (simp add: eq seq_def andThen_def)
  next
    case (Inr u)
    have "trace (snd (?i2 w2)) = trace w2"
      using p2 by (simp add: setup_movielens_item_skip movielens_items)
    with Inr i1 h2 show ?thesis by (simp add: eq seq_def andThen_def performed_def)
  qed
qed

lemma check_dataset_exists_file:
  "resolve (fs w) (Path p) = Inr File \<Longrightarrow>
   check_dataset_exists p n w = (Inl (not_a_directory_error (Path p)), w)"
  by (simp add: check_dataset_exists_def andThen_def exists_and_any_iterdir_file)

lemma setup_tmdb_dataset_skip:
  "populated (fs w) (Path ''datasets/TMDB'') \<Longrightarrow>
   setup_tmdb_dataset env has_kaggle w =
     (Inr (), w\<lparr>stdout := stdout w @
        [newline @ replicate 70 CHR ''='' @ newline,
         center 70 ''TMDB Dataset'' @ newline,
         replicate 70 CHR ''='' @ newline @ newline,
         ''[OK] TMDB Movies: Already exists'' @ newline]\<rparr>)"
  by (simp add: setup_tmdb_dataset_def seq_def andThen_def print_header_apply
      check_dataset_exists_populated return_def)

lemma setup_anime_dataset_skip:
  "populated (fs w) (Path ''datasets/anime'') \<Longrightarrow>
   setup_anime_dataset env has_kaggle w =
     (Inr (), w\<lparr>stdout := stdout w @
        [newline @ replicate 70 CHR ''='' @ newline,
         center 70 ''MyAnimeList Dataset'' @ newline,
         replicate 70 CHR ''='' @ newline @ newline,
         ''[OK] MyAnimeList: Already exists'' @ newline]\<rparr>)"
  by (simp add: setup_anime_dataset_def seq_def andThen_def print_header_apply
      check_dataset_exists_populated return_def)

lemma setup_netflix_datasets_skip:
  "populated (fs w) (Path ''datasets/Netflix/netflix'') \<Longrightarrow>
   populated (fs w) (Path ''datasets/Netflix/netflix_prize'') \<Longrightarrow>
   setup_netflix_datasets env has_kaggle w =
     (Inr (), w\<lparr>stdout := stdout w @
        [newline @ replicate 70 CHR ''='' @ newline,
         center 70 ''Netflix Datasets'' @ newline,
         replicate 70 CHR ''='' @ newline @ newline,
         ''[OK] Netflix Shows: Already exists'' @ newline,
         ''[OK] Netflix Prize: Already exists'' @ newline]\<rparr>)"
  by (simp add: setup_netflix_datasets_def seq_def andThen_def print_header_apply
      check_dataset_exists_populated return_def)

lemma setup_netflix_datasets_shows_file:
  "resolve (fs w) (Path ''datasets/Netflix/netflix'') = Inr File \<Longrightarrow>
   trace (snd (setup_netflix_datasets env has_kaggle w)) = trace w"
  by (simp add: setup_netflix_datasets_def seq_def andThen_def print_header_apply
      check_dataset_exists_file)

lemma setup_netflix_datasets_prize_file:
  "resolve (fs w) (Path ''datasets/Netflix/netflix_prize'') = Inr File \<Longrightarrow>
   trace (snd (setup_netflix_datasets env has_kaggle w)) = trace w"
  using check_dataset_exists_cases [of "''datasets/Netflix/netflix''" "''Netflix Shows''"
      "w\<lparr>stdout := stdout w @
        [newline @ replicate 70 CHR ''='' @ newline,
         center 70 ''Netflix Datasets'' @ newline,
         replicate 70 CHR ''='' @ newline @ newline]\<rparr>"]
  by (auto simp: setup_netflix_datasets_def seq_def andThen_def print_header_apply
      check_dataset_exists_file)

lemma setup_kaggle_dataset_events:
  "i \<noteq> i' \<Longrightarrow> dest \<noteq> dest' \<Longrightarrow> Path dest \<noteq> Path dest' \<Longrightarrow>
   list_all (\<lambda>ev. \<not> kaggle_event_of i' dest' ev)
     (performed w (snd (setup_kaggle_dataset env i dest n w)))"
  by (auto simp: setup_kaggle_dataset_apply performed_def
      split: prod.splits option.splits sum.splits)

lemma setup_kaggle_dataset_events_after_output:
  "i \<noteq> i' \<Longrightarrow> dest \<noteq> dest' \<Longrightarrow> Path dest \<noteq> Path dest' \<Longrightarrow>
   list_all (\<lambda>ev. \<not> kaggle_event_of i' dest' ev)
     (performed w (snd (setup_kaggle_dataset env i dest n (w\<lparr>stdout := s\<rparr>))))"
  using setup_kaggle_dataset_events [of i i' dest dest' "w\<lparr>stdout := s\<rparr>" env n] by simp

lemma setup_netflix_datasets_shows_populated:
  assumes p: "populated (fs w) (Path ''datasets/Netflix/netflix'')"
  shows "list_all (\<lambda>ev. \<not> kaggle_event_of ''shivamb/netflix-shows'' ''datasets/Netflix/netflix'' ev)
           (performed w (snd (setup_netflix_datasets env has_kaggle w)))"
proof -
  from populated_cases [of "fs w" "Path ''datasets/Netflix/netflix_prize''"] show ?thesis
  proof (elim disjE)
    assume "populated (fs w) (Path ''datasets/Netflix/netflix_prize'')"
    with p show ?thesis by (simp add: setup_netflix_datasets_skip performed_def)
  next
    assume "resolve (fs w) (Path ''datasets/Netflix/netflix_prize'') = Inr File"
    then show ?thesis by (simp add: setup_netflix_datasets_prize_file performed_def)
  next
    assume u: "unpopulated (fs w) (Path ''datasets/Netflix/netflix_prize'')"
    show ?thesis
    proof (cases has_kaggle)
      case False
      with p u show ?thesis by (simp add: setup_netflix_datasets_manual_prize performed_def)
    next
      case True
      with p u show ?thesis
        by (simp add: setup_netflix_datasets_download_prize
            setup_kaggle_dataset_events_after_output Path_destinations)
    qed
  qed
qed

lemma setup_netflix_datasets_prize_populated:
  assumes p: "populated (fs w) (Path ''datasets/Netflix/netflix_prize'')"
  shows "list_all (\<lambda>ev. \<not> kaggle_event_of ''netflix-inc/netflix-prize-data'' ''datasets/Netflix/netflix_prize'' ev)
           (performed w (snd (setup_netflix_datasets env has_kaggle w)))"
proof -
  from populated_cases [of "fs w" "Path ''datasets/Netflix/netflix''"] show ?thesis
  proof (elim disjE)
    assume "populated (fs w) (Path ''datasets/Netflix/netflix'')"
    with p show ?thesis by (simp add: setup_netflix_datasets_skip performed_def)
  next
    assume "resolve (fs w) (Path ''datasets/Netflix/netflix'') = Inr File"
    then show ?thesis by (simp add: setup_netflix_datasets_shows_file performed_def)
  next
    assume u: "unpopulated (fs w) (Path ''datasets/Netflix/netflix'')"
    show ?thesis
    proof (cases has_kaggle)
      case False
      with p u show ?thesis by (simp add: setup_netflix_datasets_manual_shows performed_def)
    next
      case True
      with p u show ?thesis
        by (simp add: setup_netflix_datasets_download_shows
            setup_kaggle_dataset_events_after_output Path_destinations)
    qed
  qed
qed

lemma complete_populated:
  "populated (fs (start fs_complete)) ([''datasets'', ''MovieLens''] @ [''ml-1m''])"
  "populated (fs (start fs_complete)) ([''datasets'', ''MovieLens''] @ [''ml-25m''])"
  "populated (fs (start fs_complete)) (Path ''datasets/TMDB'')"
  "populated (fs (start fs_complete)) (Path ''datasets/anime'')"
  "populated (fs (start fs_complete)) (Path ''datasets/Netflix/netflix'')"
  "populated (fs (start fs_complete)) (Path ''datasets/Netflix/netflix_prize'')"
  by (simp_all add: start_def fs_complete_def Path_destinations populated_def)

lemma env_offline_keeps_populated: "keeps_populated env_offline p"
  by (simp add: keeps_populated_def env_offline_def)

subsection \<open>Rules for the exceptions that leave a statement\<close>



lemma only_raises_weaken: "only_raises m P \<Longrightarrow> (\<And>e. P e \<Longrightarrow> Q e) \<Longrightarrow> only_raises m Q"
  by (auto simp: only_raises_def)































subsection \<open>Rules for the lines a statement prints\<close>

lemma printed_trans:
  "prefix (stdout w) (stdout w1) \<Longrightarrow> prefix (stdout w1) (stdout w2) \<Longrightarrow>
   printed w w2 = printed w w1 @ printed w1 w2"
  by (auto simp: printed_def prefix_def)

lemma printed_same [simp]: "printed w w = []"
  by (simp add: printed_def)

lemma emitsI:
  "(\<And>w. prefix (stdout w) (stdout (snd (m w)))) \<Longrightarrow>
   (\<And>w v. fst (m w) = Inr v \<Longrightarrow> S \<subseteq> set (printed w (snd (m w)))) \<Longrightarrow> emits m S"
  by (simp add: emits_def)

lemma emits_silentI: "(\<And>w. prefix (stdout w) (stdout (snd (m w)))) \<Longrightarrow> emits m {}"
  by (simp add: emits_def)

lemma emits_prefix: "emits m S \<Longrightarrow> prefix (stdout w) (stdout (snd (m w)))"
  by (simp add: emits_def)

lemma emits_subset: "emits m S \<Longrightarrow> fst (m w) = Inr v \<Longrightarrow> S \<subseteq> set (printed w (snd (m w)))"
  by (simp add: emits_def)

lemma emits_weaken: "emits m S \<Longrightarrow> T \<subseteq> S \<Longrightarrow> emits m T"
  by (fastforce simp: emits_def)

lemma emits_silent: "emits m S \<Longrightarrow> emits m {}"
  by (simp add: emits_def)

lemma emits_return: "emits (return v) {}"
  by (simp add: emits_def return_def)

lemma emits_print: "emits (print s) {s @ newline}"
  by (simp add: emits_def print_apply)

lemma emits_print_header: "emits (print_header t) {center 70 t @ newline}"
  by (simp add: emits_def print_header_apply)

lemma emits_andThen:
  assumes m: "emits m S" and k: "\<And>v. emits (k v) T"
  shows "emits (andThen m k) (S \<union> T)"
proof (rule emitsI)
  fix w
  obtain r w1 where mw: "m w = (r, w1)" by (cases "m w")
  from emits_prefix [OF m, of w] mw have p1: "prefix (stdout w) (stdout w1)" by simp
  show "prefix (stdout w) (stdout (snd (andThen m k w)))"
  proof (cases r)
    case (Inl e)
    with mw p1 show ?thesis by (simp add: andThen_def)
  next
    case (Inr v)
    from emits_prefix [OF k, of w1 v] p1 have "prefix (stdout w) (stdout (snd (k v w1)))"
      using prefix_order.trans by blast
    with Inr mw show ?thesis by (simp add: andThen_def)
  qed
  fix v'
  assume ok: "fst (andThen m k w) = Inr v'"
  show "S \<union> T \<subseteq> set (printed w (snd (andThen m k w)))"
  proof (cases r)
    case (Inl e)
    with mw ok show ?thesis by (simp add: andThen_def)
  next
    case (Inr v)
    with mw ok have k_ok: "fst (k v w1) = Inr v'" by (simp add: andThen_def)
    from Inr mw have "fst (m w) = Inr v" by simp
    from emits_subset [OF m this] mw have s: "S \<subseteq> set (printed w w1)" by simp
    from emits_subset [OF k k_ok] have t: "T \<subseteq> set (printed w1 (snd (k v w1)))" .
    from printed_trans [OF p1 emits_prefix [OF k, of w1 v]] s t Inr mw show ?thesis
      by (auto simp: andThen_def)
  qed
qed

lemma emits_andThen_silent:
  "emits m {} \<Longrightarrow> (\<And>v. emits (k v) {}) \<Longrightarrow> emits (andThen m k) {}"
  using emits_andThen [of m "{}" k "{}"] by simp

lemma emits_andThen_skip:
  "emits m S0 \<Longrightarrow> (\<And>v. emits (k v) S) \<Longrightarrow> emits (andThen m k) S"
  using emits_andThen [of m "{}" k S] emits_silent [of m S0] by simp

lemma emits_andThen_add:
  "emits m {x} \<Longrightarrow> (\<And>v. emits (k v) S) \<Longrightarrow> emits (andThen m k) (insert x S)"
  using emits_andThen [of m "{x}" k S] by simp

lemma emits_seq_silent: "emits m {} \<Longrightarrow> emits n {} \<Longrightarrow> emits (seq m n) {}"
  unfolding seq_def by (rule emits_andThen_silent)

lemma emits_seq_skip: "emits m S0 \<Longrightarrow> emits n S \<Longrightarrow> emits (seq m n) S"
  unfolding seq_def by (rule emits_andThen_skip)

lemma emits_seq_add: "emits m {x} \<Longrightarrow> emits n S \<Longrightarrow> emits (seq m n) (insert x S)"
  unfolding seq_def by (rule emits_andThen_add)

lemma emits_if:
  "(c \<Longrightarrow> emits a S) \<Longrightarrow> (\<not> c \<Longrightarrow> emits b S) \<Longrightarrow> emits (if c then a else b) S"
  by simp

lemma emits_if_then: "emits m {} \<Longrightarrow> emits (if_then c m) {}"
  by (simp add: if_then_def emits_return)

lemma emits_discard: "emits m {} \<Longrightarrow> emits (discard m) {}"
  unfolding discard_def by (intro emits_andThen_silent emits_return)

lemma emits_block_Nil: "emits (block []) {}"
  by (simp add: emits_return)

lemma emits_block_Cons: "emits m {} \<Longrightarrow> emits (block ms) {} \<Longrightarrow> emits (block (m # ms)) {}"
  by (simp add: emits_seq_silent)

lemma emits_for_each: "(\<And>x. emits (body x) {}) \<Longrightarrow> emits (for_each body xs) {}"
  by (induction xs) (simp_all add: emits_return emits_seq_silent)

lemma emits_print_silent:
  "emits (print s) {}" "emits (print_success s) {}" "emits (print_info s) {}"
  "emits (print_warning s) {}" "emits (print_error s) {}" "emits (print_header s) {}"
  by (simp_all add: emits_def print_success_def print_info_def print_warning_def print_error_def
      print_apply print_header_apply)

lemmas emits_silent_intros =
  emits_return emits_print_silent emits_andThen_silent emits_seq_silent emits_if emits_if_then
  emits_discard emits_block_Nil emits_block_Cons emits_for_each

lemma emits_path_mkdir: "emits (path_mkdir a b p) {}"
  by (rule emits_silentI) (simp add: path_mkdir_def split: sum.splits)

lemma emits_path_unlink: "emits (path_unlink p) {}"
  by (rule emits_silentI) (simp add: path_unlink_def split: sum.splits)

lemma emits_skip_test: "emits (exists_and_any_iterdir p) {}"
proof (rule emits_silentI)
  fix w :: "'a world"
  from exists_and_any_iterdir_cases [of p w]
  show "prefix (stdout w) (stdout (snd (exists_and_any_iterdir p w)))" by auto
qed

lemma emits_check_dataset_exists: "emits (check_dataset_exists p n) {}"
  unfolding check_dataset_exists_def Let_def
  by (intro emits_silent_intros emits_skip_test)

lemma emits_download_file: "emits (download_file env url p d) {}"
  using download_file_facts [of env url p d] by (intro emits_silentI) simp

lemma emits_extract_zip: "emits (extract_zip env z d n) {}"
  using extract_zip_facts [of env z d n] by (intro emits_silentI) simp

lemma emits_setup_kaggle_dataset: "emits (setup_kaggle_dataset env i dest n) {}"
  by (rule emits_silentI)
     (auto simp: setup_kaggle_dataset_apply split: prod.splits option.splits sum.splits)

lemma emits_check_kaggle_api: "emits (check_kaggle_api env) {}"
  by (rule emits_silentI)
     (auto simp: check_kaggle_api_apply split: prod.splits option.splits)


lemma emits_setup_movielens:
  "emits (setup_movielens env) {center 70 ''MovieLens Datasets'' @ newline}"
  unfolding setup_movielens_def setup_movielens_item_def Let_def
  by (rule emits_seq_add [OF emits_print_header])
     (intro emits_silent_intros emits_path_mkdir emits_path_unlink emits_skip_test
      emits_download_file emits_extract_zip)

lemma emits_setup_netflix_datasets:
  "emits (setup_netflix_datasets env has_kaggle) {center 70 ''Netflix Datasets'' @ newline}"
  unfolding setup_netflix_datasets_def
  by (rule emits_seq_add [OF emits_print_header])
     (intro emits_silent_intros emits_check_dataset_exists emits_setup_kaggle_dataset)

lemma emits_setup_tmdb_dataset:
  "emits (setup_tmdb_dataset env has_kaggle) {center 70 ''TMDB Dataset'' @ newline}"
  unfolding setup_tmdb_dataset_def
  by (rule emits_seq_add [OF emits_print_header])
     (intro emits_silent_intros emits_check_dataset_exists emits_setup_kaggle_dataset)

lemma emits_setup_anime_dataset:
  "emits (setup_anime_dataset env has_kaggle) {center 70 ''MyAnimeList Dataset'' @ newline}"
  unfolding setup_anime_dataset_def
  by (rule emits_seq_add [OF emits_print_header])
     (intro emits_silent_intros emits_check_dataset_exists emits_setup_kaggle_dataset)

lemma emits_print_kaggle_setup_instructions: "emits print_kaggle_setup_instructions {}"
  unfolding print_kaggle_setup_instructions_def by (intro emits_silent_intros)



lemma run_main_offline:
  "fst (main env_offline (start fs_empty)) = Inr ()
   \<and> performed (start fs_empty) (snd (main env_offline (start fs_empty))) =
       [Mkdir [''datasets''] None,
        ImportKaggle (Some (Exn ModuleNotFoundError ''No module named kaggle'')),
        Mkdir [''datasets'', ''MovieLens''] None,
        Urlretrieve ''https://files.grouplens.org/datasets/movielens/ml-1m.zip''
          [''datasets'', ''MovieLens'', ''ml-1m.zip'']
          (Some (Exn URLError ''<urlopen error [Errno -3] Temporary failure in name resolution>'')),
        Urlretrieve ''https://files.grouplens.org/datasets/movielens/ml-25m.zip''
          [''datasets'', ''MovieLens'', ''ml-25m.zip'']
          (Some (Exn URLError ''<urlopen error [Errno -3] Temporary failure in name resolution>''))]
   \<and> fs (snd (main env_offline (start fs_empty))) = Dir [(''datasets'', Dir [(''MovieLens'', Dir [])])]"
  by (simp add: run_simps env_offline_def)

subsection \<open>The orchestrator around the verification\<close>

lemma andThen_assoc: "andThen (andThen m k) h = andThen m (\<lambda>x. andThen (k x) h)"
  by (rule ext) (simp add: andThen_def split: prod.splits sum.splits)

lemma andThen_return: "andThen (return v) k = k v"
  by (rule ext) (simp add: andThen_def return_def)

lemma main_decomposed:
  "main env = andThen (main_setup env) (\<lambda>has_kaggle.
               andThen verify_datasets (\<lambda>all_present. main_summary has_kaggle all_present))"
  by (simp add: main_def main_setup_def main_summary_def seq_def andThen_assoc andThen_return)

lemma emits_main_setup: "emits (main_setup env) {}"
  unfolding main_setup_def
  apply (rule emits_seq_skip [OF emits_print_header])
  apply (rule emits_seq_skip [OF emits_print])
  apply (rule emits_seq_skip [OF emits_print])
  apply (rule emits_seq_skip [OF emits_path_mkdir])
  apply (rule emits_andThen_skip [OF emits_check_kaggle_api])
  apply (rule emits_seq_skip [where ?S0.0 = "{}"])
   apply (intro emits_silent_intros emits_print_kaggle_setup_instructions)
  apply (rule emits_seq_skip [OF emits_print])
  apply (rule emits_seq_skip [OF emits_setup_movielens])
  apply (rule emits_seq_skip [OF emits_setup_netflix_datasets])
  apply (rule emits_seq_skip [OF emits_setup_tmdb_dataset])
  apply (rule emits_seq_skip [OF emits_setup_anime_dataset])
  apply (rule emits_seq_skip [OF emits_print])
  apply (rule emits_return)
  done

lemma main_summary_apply:
  "fst (main_summary has_kaggle all_present w) = Inr ()
   \<and> only_printed w (snd (main_summary has_kaggle all_present w))
   \<and> prefix (stdout w) (stdout (snd (main_summary has_kaggle all_present w)))
   \<and> (if all_present then ''[OK] All datasets are ready!'' @ newline
       else ''[WARNING] Some datasets are missing.'' @ newline)
        \<in> set (printed w (snd (main_summary has_kaggle all_present w)))"
  by (cases all_present; cases has_kaggle)
     (simp_all add: main_summary_def seq_def andThen_def print_header_apply print_apply
      print_success_def print_info_def print_warning_def if_then_def return_def)

lemma all_markers_iff: "all_markers f \<longleftrightarrow> (\<forall>r\<in>set required_files. path_exists f (Path (snd r)))"
  by (simp add: all_markers_def list_all_iff)

text \<open>
  A normal return of \<open>main\<close>: the verification saw the filesystem that \<open>main\<close> leaves,
  and the summary that matches its result has been printed.
\<close>

lemma main_returns:
  assumes "fst (main env w) = Inr ()"
  shows "(if all_markers (fs (snd (main env w)))
          then ''[OK] All datasets are ready!'' @ newline
          else ''[WARNING] Some datasets are missing.'' @ newline)
           \<in> set (printed w (snd (main env w)))"
proof -
  obtain r1 w1 where s: "main_setup env w = (r1, w1)" by (cases "main_setup env w")
  from assms s obtain hk where r1: "r1 = Inr hk"
    by (cases r1) (auto simp: main_decomposed andThen_def)
  define ap where "ap = (\<forall>r\<in>set required_files. path_exists (fs w1) (Path (snd r)))"
  define w2 where "w2 = snd (verify_datasets w1)"
  define w3 where "w3 = snd (main_summary hk ap w2)"
  have v: "verify_datasets w1 = (Inr ap, w2)"
    by (simp add: w2_def ap_def verify_datasets_apply)
  have f2: "fs w2 = fs w1" and p12: "prefix (stdout w1) (stdout w2)"
    by (simp_all add: w2_def verify_datasets_apply)
  note m = main_summary_apply [of hk ap w2, folded w3_def]
  from m have ms: "main_summary hk ap w2 = (Inr (), w3)"
    by (cases "main_summary hk ap w2") (simp add: w3_def)
  have res: "main env w = (Inr (), w3)"
    using s r1 v ms by (simp add: main_decomposed andThen_def)
  from emits_prefix [OF emits_main_setup, of w env] s have p01: "prefix (stdout w) (stdout w1)"
    by simp
  from p01 p12 have p02: "prefix (stdout w) (stdout w2)" using prefix_order.trans by blast
  from m have p23: "prefix (stdout w2) (stdout w3)" by simp
  from printed_trans [OF p02 p23] have "set (printed w2 w3) \<subseteq> set (printed w w3)" by simp
  moreover from m f2 have "all_markers (fs w3) = ap"
    by (simp add: all_markers_iff ap_def only_printed_def)
  ultimately show ?thesis using m res by auto
qed

lemma main_summary_returns: "fst (main_summary has_kaggle all_present w) = Inr ()"
  using main_summary_apply [of has_kaggle all_present w] by auto

lemma run_main_online:
  "fst (main env_online (start fs_empty)) = Inr ()
   \<and> fs (snd (main env_online (start fs_empty))) =
      Dir [(''datasets'',
        Dir [(''MovieLens'',
                Dir [(''ml-1m'', Dir [(''ratings.dat'', File)]),
                     (''ml-25m'', Dir [(''ratings.csv'', File)])]),
             (''Netflix'',
                Dir [(''netflix'', Dir [(''netflix_titles.csv'', File)]),
                     (''netflix_prize'', Dir [(''combined_data_1.txt'', File)])]),
             (''TMDB'', Dir [(''TMDB_movie_dataset_v11.csv'', File)]),
             (''anime'', Dir [(''anime.csv'', File)])])]"
  by (simp add: run_simps env_online_def unpack_def kaggle_files_def)

section \<open>The claims\<close>

text \<open>
  C1. \<^verbatim>\<open>verify_datasets\<close> returns true if and only if every one of the six fixed marker
  paths exists in the filesystem; for every entry of its table whose path is absent it
  prints the line \<^verbatim>\<open>[ERROR] <name>: Missing\<close>, and the result is then false.
\<close>

theorem verify_datasets_iff_all_markers:
  "fst (verify_datasets w) =
     Inr (path_exists (fs w) (Path ''datasets/MovieLens/ml-1m/ratings.dat'')
        \<and> path_exists (fs w) (Path ''datasets/MovieLens/ml-25m/ratings.csv'')
        \<and> path_exists (fs w) (Path ''datasets/Netflix/netflix/netflix_titles.csv'')
        \<and> path_exists (fs w) (Path ''datasets/Netflix/netflix_prize'')
        \<and> path_exists (fs w) (Path ''datasets/TMDB/TMDB_movie_dataset_v11.csv'')
        \<and> path_exists (fs w) (Path ''datasets/anime/anime.csv''))
   \<and> (\<forall>(name, path) \<in> set required_files.
          \<not> path_exists (fs w) (Path path) \<longrightarrow>
            (''[ERROR] '' @ name @ '': Missing'' @ newline) \<in> set (printed w (snd (verify_datasets w)))
            \<and> fst (verify_datasets w) = Inr False)"
proof (intro conjI)
  show "fst (verify_datasets w) =
     Inr (path_exists (fs w) (Path ''datasets/MovieLens/ml-1m/ratings.dat'')
        \<and> path_exists (fs w) (Path ''datasets/MovieLens/ml-25m/ratings.csv'')
        \<and> path_exists (fs w) (Path ''datasets/Netflix/netflix/netflix_titles.csv'')
        \<and> path_exists (fs w) (Path ''datasets/Netflix/netflix_prize'')
        \<and> path_exists (fs w) (Path ''datasets/TMDB/TMDB_movie_dataset_v11.csv'')
        \<and> path_exists (fs w) (Path ''datasets/anime/anime.csv''))"
    by (simp add: verify_datasets_apply required_files_def)
next
  show "\<forall>(name, path) \<in> set required_files.
          \<not> path_exists (fs w) (Path path) \<longrightarrow>
            (''[ERROR] '' @ name @ '': Missing'' @ newline) \<in> set (printed w (snd (verify_datasets w)))
            \<and> fst (verify_datasets w) = Inr False"
  proof (clarify, intro conjI)
    fix name path
    assume r: "(name, path) \<in> set required_files" and miss: "\<not> path_exists (fs w) (Path path)"
    have "verify_line (fs w) (name, path) \<in> set (map (verify_line (fs w)) required_files)"
      using r by (simp add: image_iff) (metis)
    then show "(''[ERROR] '' @ name @ '': Missing'' @ newline)
                 \<in> set (printed w (snd (verify_datasets w)))"
      using miss by (simp add: verify_datasets_apply verify_line_def printed_def)
    show "fst (verify_datasets w) = Inr False"
      using r miss by (simp add: verify_datasets_apply) (force)
  qed
qed

theorem verify_datasets_iff_all_markers_witness:
  "fst (verify_datasets (start fs_complete)) = Inr True
   \<and> \<not> path_exists (fs (start fs_empty_destinations)) (Path ''datasets/TMDB/TMDB_movie_dataset_v11.csv'')
   \<and> (''[ERROR] TMDB: Missing'' @ newline)
        \<in> set (printed (start fs_empty_destinations) (snd (verify_datasets (start fs_empty_destinations))))
   \<and> fst (verify_datasets (start fs_empty_destinations)) = Inr False"
proof -
  have m: "(''TMDB'', ''datasets/TMDB/TMDB_movie_dataset_v11.csv'') \<in> set required_files"
    by (simp add: required_files_def)
  have a: "\<not> path_exists (fs (start fs_empty_destinations)) (Path ''datasets/TMDB/TMDB_movie_dataset_v11.csv'')"
    by (simp add: start_def fs_empty_destinations_def Path_markers path_exists_def)
  have c: "fst (verify_datasets (start fs_complete)) = Inr True"
    using verify_datasets_iff_all_markers [of "start fs_complete"]
    by (simp add: start_def fs_complete_def Path_markers Path_destinations path_exists_def)
  from verify_datasets_iff_all_markers [of "start fs_empty_destinations"] m a c
  show ?thesis by fastforce
qed

text \<open>
  C8. \<^verbatim>\<open>verify_datasets\<close> never changes the filesystem: the state after the call is the
  state before it. It only reads whether the paths of its fixed table exist, and changes
  nothing but the output (no call is added to the trace, the outside state is untouched).
\<close>

theorem verify_datasets_frame:
  "fs (snd (verify_datasets w)) = fs w
   \<and> trace (snd (verify_datasets w)) = trace w
   \<and> ext (snd (verify_datasets w)) = ext w
   \<and> snd (verify_datasets w) = w\<lparr>stdout := stdout (snd (verify_datasets w))\<rparr>"
  by (simp add: verify_datasets_apply)



text \<open>
  C10. \<^verbatim>\<open>setup_kaggle_dataset\<close> is not atomic on failure. When the import succeeds, the
  destination does not exist yet and can be created, and the Kaggle download raises (an
  instance of \<^verbatim>\<open>Exception\<close>, leaving the filesystem as it found it), the function returns
  false, \<^verbatim>\<open>mkdir\<close> has run before the download, and the destination stays behind as a
  directory without entries. For Netflix Prize, whose marker is the destination directory
  itself, a verification that follows prints \<^verbatim>\<open>[OK] Netflix Prize: Found\<close>.
\<close>

theorem setup_kaggle_dataset_leaves_empty_directory:
  assumes "fst (kaggle_import env (ext w)) = None"
    and "\<not> path_exists (fs w) (Path dest)"
    and "mkdir True True (Path dest) (fs w) = Inr f1"
    and "kaggle_download env i dest f1 (snd (kaggle_import env (ext w))) = (Some e, f1, x2)"
    and "isinstance e Exception"
  shows "fst (setup_kaggle_dataset env i dest n w) = Inr False
    \<and> performed w (snd (setup_kaggle_dataset env i dest n w)) =
        [ImportKaggle None, Mkdir (Path dest) None, DatasetDownloadFiles i dest (Some e)]
    \<and> resolve f1 (Path dest) = Inr (Dir [])
    \<and> fs (snd (setup_kaggle_dataset env i dest n w)) = f1
    \<and> (dest = ''datasets/Netflix/netflix_prize'' \<longrightarrow>
         (''[OK] Netflix Prize: Found'' @ newline)
            \<in> set (printed (snd (setup_kaggle_dataset env i dest n w))
                      (snd (verify_datasets (snd (setup_kaggle_dataset env i dest n w))))))"
proof -
  obtain x1 where imp: "kaggle_import env (ext w) = (None, x1)"
    using assms(1) by (cases "kaggle_import env (ext w)") auto
  with assms(4) have dl: "kaggle_download env i dest f1 x1 = (Some e, f1, x2)" by simp
  let ?w' = "snd (setup_kaggle_dataset env i dest n w)"
  have res: "fst (setup_kaggle_dataset env i dest n w) = Inr False"
    and tr: "trace ?w' = trace w @ [ImportKaggle None, Mkdir (Path dest) None, DatasetDownloadFiles i dest (Some e)]"
    and f: "fs ?w' = f1"
    using imp dl assms(3,5) by (simp_all add: setup_kaggle_dataset_apply)
  have dir: "resolve f1 (Path dest) = Inr (Dir [])"
    using mkdir_creates [OF assms(3) assms(2)] .
  have found: "(''[OK] Netflix Prize: Found'' @ newline) \<in> set (printed ?w' (snd (verify_datasets ?w')))"
    if d: "dest = ''datasets/Netflix/netflix_prize''"
  proof -
    have "(''Netflix Prize'', ''datasets/Netflix/netflix_prize'') \<in> set required_files"
      by (simp add: required_files_def)
    from verify_line_in_printed [OF this, of ?w'] dir f d show ?thesis
      by (simp add: verify_line_def path_exists_def)
  qed
  from res tr f dir found show ?thesis by (simp add: performed_def)
qed

theorem setup_kaggle_dataset_leaves_empty_directory_witness:
  "fst (setup_kaggle_dataset env_kaggle_refuses ''netflix-inc/netflix-prize-data''
          ''datasets/Netflix/netflix_prize'' ''Netflix Prize'' (start fs_empty)) = Inr False
   \<and> \<not> path_exists fs_empty (Path ''datasets/Netflix/netflix_prize'')
   \<and> fs (snd (setup_kaggle_dataset env_kaggle_refuses ''netflix-inc/netflix-prize-data''
          ''datasets/Netflix/netflix_prize'' ''Netflix Prize'' (start fs_empty)))
       = Dir [(''datasets'', Dir [(''Netflix'', Dir [(''netflix_prize'', Dir [])])])]
   \<and> (''[OK] Netflix Prize: Found'' @ newline)
        \<in> set (printed (snd (setup_kaggle_dataset env_kaggle_refuses ''netflix-inc/netflix-prize-data''
                              ''datasets/Netflix/netflix_prize'' ''Netflix Prize'' (start fs_empty)))
               (snd (verify_datasets (snd (setup_kaggle_dataset env_kaggle_refuses
                   ''netflix-inc/netflix-prize-data'' ''datasets/Netflix/netflix_prize''
                   ''Netflix Prize'' (start fs_empty))))))"
proof -
  let ?f1 = "Dir [(''datasets'', Dir [(''Netflix'', Dir [(''netflix_prize'', Dir [])])])]"
  let ?e = "Exn (OtherException ''ApiException'') ''(403) Forbidden''"
  have a1: "fst (kaggle_import env_kaggle_refuses (ext (start fs_empty))) = None"
    by (simp add: env_kaggle_refuses_def env_online_def)
  have a2: "\<not> path_exists (fs (start fs_empty)) (Path ''datasets/Netflix/netflix_prize'')"
    by (simp add: start_def fs_empty_def Path_destinations path_exists_def)
  have a3: "mkdir True True (Path ''datasets/Netflix/netflix_prize'') (fs (start fs_empty)) = Inr ?f1"
    by (simp add: start_def mkdir_netflix_prize_fresh)
  have a4: "kaggle_download env_kaggle_refuses ''netflix-inc/netflix-prize-data''
              ''datasets/Netflix/netflix_prize'' ?f1
              (snd (kaggle_import env_kaggle_refuses (ext (start fs_empty)))) = (Some ?e, ?f1, ())"
    by (simp add: env_kaggle_refuses_def env_online_def)
  have a5: "isinstance ?e Exception"
    by (simp add: isinstance_def issubclass_def)
  from setup_kaggle_dataset_leaves_empty_directory [OF a1 a2 a3 a4 a5, of "''Netflix Prize''"] a2
  show ?thesis by (simp add: start_def)
qed

text \<open>
  C6, as amended. A Kaggle-mediated routine called with \<^verbatim>\<open>has_kaggle\<close> false and an
  unpopulated destination (missing, or a directory without entries; for the Netflix
  routine the other destination must not be a regular file) returns normally, prints the
  manual instructions for that dataset (source URL, steps, destination path), makes no
  call that downloads or writes, and leaves the filesystem unchanged. A verification that
  follows reports TMDB, MyAnimeList and Netflix Shows missing. Netflix Prize is reported
  missing when its destination does not exist, and found when it exists as an empty
  directory, because its marker is the destination directory itself.
\<close>

theorem kaggle_routines_without_api_access:
  "(unpopulated (fs w) (Path ''datasets/TMDB'') \<longrightarrow>
      fst (setup_tmdb_dataset env False w) = Inr ()
    \<and> only_printed w (snd (setup_tmdb_dataset env False w))
    \<and> {''  1. Go to: https://www.kaggle.com/datasets/asaniczka/tmdb-movies-dataset-2023-930k-movies'' @ newline,
        ''  2. Click 'Download' button (requires Kaggle login)'' @ newline,
        ''  3. Extract TMDB_movie_dataset_v11.csv to: datasets/TMDB/'' @ newline}
         \<subseteq> set (printed w (snd (setup_tmdb_dataset env False w)))
    \<and> reports_missing ''TMDB'' (snd (setup_tmdb_dataset env False w)))
 \<and> (unpopulated (fs w) (Path ''datasets/anime'') \<longrightarrow>
      fst (setup_anime_dataset env False w) = Inr ()
    \<and> only_printed w (snd (setup_anime_dataset env False w))
    \<and> {''  1. Go to: https://www.kaggle.com/datasets/hernan4444/anime-recommendation-database-2020'' @ newline,
        ''  2. Click 'Download' button (requires Kaggle login)'' @ newline,
        ''  3. Extract all CSV files to: datasets/anime/'' @ newline}
         \<subseteq> set (printed w (snd (setup_anime_dataset env False w)))
    \<and> reports_missing ''MyAnimeList'' (snd (setup_anime_dataset env False w)))
 \<and> (unpopulated (fs w) (Path ''datasets/Netflix/netflix'')
      \<and> resolve (fs w) (Path ''datasets/Netflix/netflix_prize'') \<noteq> Inr File \<longrightarrow>
      fst (setup_netflix_datasets env False w) = Inr ()
    \<and> only_printed w (snd (setup_netflix_datasets env False w))
    \<and> {''  1. Go to: https://www.kaggle.com/datasets/shivamb/netflix-shows'' @ newline,
        ''  2. Click 'Download' button (requires Kaggle login)'' @ newline,
        ''  3. Extract netflix_titles.csv to: datasets/Netflix/netflix/'' @ newline}
         \<subseteq> set (printed w (snd (setup_netflix_datasets env False w)))
    \<and> reports_missing ''Netflix Shows'' (snd (setup_netflix_datasets env False w)))
 \<and> (unpopulated (fs w) (Path ''datasets/Netflix/netflix_prize'')
      \<and> resolve (fs w) (Path ''datasets/Netflix/netflix'') \<noteq> Inr File \<longrightarrow>
      fst (setup_netflix_datasets env False w) = Inr ()
    \<and> only_printed w (snd (setup_netflix_datasets env False w))
    \<and> {''  1. Go to: https://www.kaggle.com/datasets/netflix-inc/netflix-prize-data'' @ newline,
        ''  2. Click 'Download' button (requires Kaggle login)'' @ newline,
        ''  3. Extract all files to: datasets/Netflix/netflix_prize/'' @ newline}
         \<subseteq> set (printed w (snd (setup_netflix_datasets env False w)))
    \<and> (\<not> path_exists (fs w) (Path ''datasets/Netflix/netflix_prize'')
          \<longrightarrow> reports_missing ''Netflix Prize'' (snd (setup_netflix_datasets env False w)))
    \<and> (path_exists (fs w) (Path ''datasets/Netflix/netflix_prize'')
          \<longrightarrow> reports_found ''Netflix Prize'' (snd (setup_netflix_datasets env False w))))"
proof (intro conjI impI)
  assume u: "unpopulated (fs w) (Path ''datasets/TMDB'')"
  note r = setup_tmdb_dataset_manual [OF u, of env]
  show "fst (setup_tmdb_dataset env False w) = Inr ()" by (simp add: r)
  show "only_printed w (snd (setup_tmdb_dataset env False w))" by (simp add: r)
  show "{''  1. Go to: https://www.kaggle.com/datasets/asaniczka/tmdb-movies-dataset-2023-930k-movies'' @ newline,
        ''  2. Click 'Download' button (requires Kaggle login)'' @ newline,
        ''  3. Extract TMDB_movie_dataset_v11.csv to: datasets/TMDB/'' @ newline}
         \<subseteq> set (printed w (snd (setup_tmdb_dataset env False w)))" by (simp add: r)
  show "reports_missing ''TMDB'' (snd (setup_tmdb_dataset env False w))"
    using tmdb_marker_missing [OF u] by (simp add: r)
next
  assume u: "unpopulated (fs w) (Path ''datasets/anime'')"
  note r = setup_anime_dataset_manual [OF u, of env]
  show "fst (setup_anime_dataset env False w) = Inr ()" by (simp add: r)
  show "only_printed w (snd (setup_anime_dataset env False w))" by (simp add: r)
  show "{''  1. Go to: https://www.kaggle.com/datasets/hernan4444/anime-recommendation-database-2020'' @ newline,
        ''  2. Click 'Download' button (requires Kaggle login)'' @ newline,
        ''  3. Extract all CSV files to: datasets/anime/'' @ newline}
         \<subseteq> set (printed w (snd (setup_anime_dataset env False w)))" by (simp add: r)
  show "reports_missing ''MyAnimeList'' (snd (setup_anime_dataset env False w))"
    using anime_marker_missing [OF u] by (simp add: r)
next
  assume a: "unpopulated (fs w) (Path ''datasets/Netflix/netflix'')
      \<and> resolve (fs w) (Path ''datasets/Netflix/netflix_prize'') \<noteq> Inr File"
  then have u: "unpopulated (fs w) (Path ''datasets/Netflix/netflix'')" by simp
  from a populated_cases [of "fs w" "Path ''datasets/Netflix/netflix_prize''"]
  have c: "populated (fs w) (Path ''datasets/Netflix/netflix_prize'')
         \<or> unpopulated (fs w) (Path ''datasets/Netflix/netflix_prize'')" by blast
  note r1 = setup_netflix_datasets_manual_shows [OF u, of env]
  note r2 = setup_netflix_datasets_manual_both [OF u, of env]
  show "fst (setup_netflix_datasets env False w) = Inr ()"
    using c r1 r2 by auto
  show "only_printed w (snd (setup_netflix_datasets env False w))"
    using c r1 r2 by auto
  show "{''  1. Go to: https://www.kaggle.com/datasets/shivamb/netflix-shows'' @ newline,
        ''  2. Click 'Download' button (requires Kaggle login)'' @ newline,
        ''  3. Extract netflix_titles.csv to: datasets/Netflix/netflix/'' @ newline}
         \<subseteq> set (printed w (snd (setup_netflix_datasets env False w)))"
    using c r1 r2 by auto
  show "reports_missing ''Netflix Shows'' (snd (setup_netflix_datasets env False w))"
    using c r1 r2 netflix_shows_marker_missing [OF u] by auto
next
  assume a: "unpopulated (fs w) (Path ''datasets/Netflix/netflix_prize'')
      \<and> resolve (fs w) (Path ''datasets/Netflix/netflix'') \<noteq> Inr File"
  then have u: "unpopulated (fs w) (Path ''datasets/Netflix/netflix_prize'')" by simp
  from a populated_cases [of "fs w" "Path ''datasets/Netflix/netflix''"]
  have c: "populated (fs w) (Path ''datasets/Netflix/netflix'')
         \<or> unpopulated (fs w) (Path ''datasets/Netflix/netflix'')" by blast
  note r1 = setup_netflix_datasets_manual_prize [OF _ u, of env]
  note r2 = setup_netflix_datasets_manual_both [OF _ u, of env]
  show "fst (setup_netflix_datasets env False w) = Inr ()"
    using c r1 r2 by auto
  show "only_printed w (snd (setup_netflix_datasets env False w))"
    using c r1 r2 by auto
  show "{''  1. Go to: https://www.kaggle.com/datasets/netflix-inc/netflix-prize-data'' @ newline,
        ''  2. Click 'Download' button (requires Kaggle login)'' @ newline,
        ''  3. Extract all files to: datasets/Netflix/netflix_prize/'' @ newline}
         \<subseteq> set (printed w (snd (setup_netflix_datasets env False w)))"
    using c r1 r2 by auto
  show "reports_missing ''Netflix Prize'' (snd (setup_netflix_datasets env False w))"
    if "\<not> path_exists (fs w) (Path ''datasets/Netflix/netflix_prize'')"
    using that c r1 r2 netflix_prize_marker [of w] by auto
  show "reports_found ''Netflix Prize'' (snd (setup_netflix_datasets env False w))"
    if "path_exists (fs w) (Path ''datasets/Netflix/netflix_prize'')"
    using that c r1 r2 netflix_prize_marker [of w] by auto
qed

theorem kaggle_routines_without_api_access_witness:
  "unpopulated (fs (start fs_empty_destinations)) (Path ''datasets/TMDB'')
   \<and> fst (setup_tmdb_dataset env_offline False (start fs_empty_destinations)) = Inr ()
   \<and> only_printed (start fs_empty_destinations)
        (snd (setup_tmdb_dataset env_offline False (start fs_empty_destinations)))
   \<and> reports_missing ''TMDB'' (snd (setup_tmdb_dataset env_offline False (start fs_empty_destinations)))
   \<and> unpopulated (fs (start fs_empty_destinations)) (Path ''datasets/anime'')
   \<and> reports_missing ''MyAnimeList'' (snd (setup_anime_dataset env_offline False (start fs_empty_destinations)))
   \<and> unpopulated (fs (start fs_empty_destinations)) (Path ''datasets/Netflix/netflix'')
   \<and> resolve (fs (start fs_empty_destinations)) (Path ''datasets/Netflix/netflix_prize'') \<noteq> Inr File
   \<and> reports_missing ''Netflix Shows'' (snd (setup_netflix_datasets env_offline False (start fs_empty_destinations)))
   \<and> unpopulated (fs (start fs_empty_destinations)) (Path ''datasets/Netflix/netflix_prize'')
   \<and> resolve (fs (start fs_empty_destinations)) (Path ''datasets/Netflix/netflix'') \<noteq> Inr File
   \<and> path_exists (fs (start fs_empty_destinations)) (Path ''datasets/Netflix/netflix_prize'')
   \<and> reports_found ''Netflix Prize'' (snd (setup_netflix_datasets env_offline False (start fs_empty_destinations)))
   \<and> \<not> path_exists (fs (start fs_empty)) (Path ''datasets/Netflix/netflix_prize'')
   \<and> reports_missing ''Netflix Prize'' (snd (setup_netflix_datasets env_offline False (start fs_empty)))"
proof -
  have nf: "resolve (fs (start fs_empty_destinations)) (Path ''datasets/Netflix/netflix_prize'') \<noteq> Inr File"
    "resolve (fs (start fs_empty_destinations)) (Path ''datasets/Netflix/netflix'') \<noteq> Inr File"
    "resolve (fs (start fs_empty)) (Path ''datasets/Netflix/netflix'') \<noteq> Inr File"
    by (simp_all add: start_def fs_empty_destinations_def fs_empty_def Path_destinations)
  from kaggle_routines_without_api_access [of "start fs_empty_destinations" env_offline]
    kaggle_routines_without_api_access [of "start fs_empty" env_offline]
    empty_destinations_unpopulated fresh_unpopulated nf
  show ?thesis by blast
qed

text \<open>
  The claim as first stated (the verification that follows always reports the dataset
  missing) fails for Netflix Prize when \<^verbatim>\<open>datasets/Netflix/netflix_prize\<close> exists and is empty.
\<close>

theorem kaggle_routines_without_api_access_counterexample:
  "unpopulated (fs (start fs_empty_destinations)) (Path ''datasets/Netflix/netflix_prize'')
   \<and> fst (setup_netflix_datasets env_offline False (start fs_empty_destinations)) = Inr ()
   \<and> fs (snd (setup_netflix_datasets env_offline False (start fs_empty_destinations)))
       = fs (start fs_empty_destinations)
   \<and> \<not> reports_missing ''Netflix Prize''
         (snd (setup_netflix_datasets env_offline False (start fs_empty_destinations)))
   \<and> reports_found ''Netflix Prize''
         (snd (setup_netflix_datasets env_offline False (start fs_empty_destinations)))"
proof -
  note u = empty_destinations_unpopulated
  note r = setup_netflix_datasets_manual_both [OF u(3) u(4), of env_offline]
  have h: "''[ERROR] Netflix Prize: Missing'' \<noteq> center 70 ''Verification''"
  proof
    assume "''[ERROR] Netflix Prize: Missing'' = center 70 ''Verification''"
    then have "length ''[ERROR] Netflix Prize: Missing'' = length (center 70 ''Verification'')"
      by (rule arg_cong)
    then show False by (simp add: center_def)
  qed
  have m: "\<not> reports_missing ''Netflix Prize'' (start fs_empty_destinations)"
    using h
    by (simp add: reports_missing_def verify_datasets_printed required_files_def verify_line_def
        start_def fs_empty_destinations_def Path_markers Path_destinations path_exists_def
        newline_def)
  have f: "reports_found ''Netflix Prize'' (start fs_empty_destinations)"
    using netflix_prize_marker [of "start fs_empty_destinations"] u(5) by simp
  from u(4) m f show ?thesis by (simp add: r)
qed




text \<open>
  C5. For every direct-download item the archive is deleted only after \<^verbatim>\<open>extract_zip\<close>
  has reported success, never before. In the trace of \<^verbatim>\<open>setup_movielens\<close> every
  \<^verbatim>\<open>unlink\<close> comes right after the successful \<^verbatim>\<open>extractall\<close> of the same archive; one turn
  of the loop makes no call, or the transfer alone, or the transfer and a failed
  extraction, or the transfer, a successful extraction and the \<^verbatim>\<open>unlink\<close>; \<^verbatim>\<open>extract_zip\<close>
  returns true exactly when \<^verbatim>\<open>extractall\<close> succeeded; and when the extraction fails the
  turn ends in the very state the extraction left, so nothing is deleted.
\<close>

theorem archive_unlinked_only_after_extraction:
  "unlink_guarded None (performed w (snd (setup_movielens env w)))
 \<and> (performed w (snd (setup_movielens_item env d it w)) = []
    \<or> (\<exists>out. performed w (snd (setup_movielens_item env d it w)) =
                   [Urlretrieve (ds_url it) (joinpath d (ds_filename it)) out])
    \<or> (\<exists>e. performed w (snd (setup_movielens_item env d it w)) =
                   [Urlretrieve (ds_url it) (joinpath d (ds_filename it)) None,
                    Extractall (joinpath d (ds_filename it)) d (Some e)])
    \<or> (\<exists>out. performed w (snd (setup_movielens_item env d it w)) =
                   [Urlretrieve (ds_url it) (joinpath d (ds_filename it)) None,
                    Extractall (joinpath d (ds_filename it)) d None,
                    Unlink (joinpath d (ds_filename it)) out]))
 \<and> (\<exists>out. performed w (snd (extract_zip env z d n w)) = [Extractall z d out]
          \<and> (fst (extract_zip env z d n w) = Inr True \<longleftrightarrow> out = None))
 \<and> (unpopulated (fs w) (joinpath d (ds_extract_dir it))
      \<and> fst (download_file env (ds_url it) (joinpath d (ds_filename it)) (ds_name it) w) = Inr True
      \<and> fst (extract_zip env (joinpath d (ds_filename it)) d (ds_name it)
               (snd (download_file env (ds_url it) (joinpath d (ds_filename it)) (ds_name it) w)))
          \<noteq> Inr True
    \<longrightarrow> snd (setup_movielens_item env d it w) =
          snd (extract_zip env (joinpath d (ds_filename it)) d (ds_name it)
                 (snd (download_file env (ds_url it) (joinpath d (ds_filename it)) (ds_name it) w))))"
proof (intro conjI impI)
  show "unlink_guarded None (performed w (snd (setup_movielens env w)))"
    by (rule performs_holds [OF setup_movielens_guarded])
  show "performed w (snd (setup_movielens_item env d it w)) = []
    \<or> (\<exists>out. performed w (snd (setup_movielens_item env d it w)) =
                   [Urlretrieve (ds_url it) (joinpath d (ds_filename it)) out])
    \<or> (\<exists>e. performed w (snd (setup_movielens_item env d it w)) =
                   [Urlretrieve (ds_url it) (joinpath d (ds_filename it)) None,
                    Extractall (joinpath d (ds_filename it)) d (Some e)])
    \<or> (\<exists>out. performed w (snd (setup_movielens_item env d it w)) =
                   [Urlretrieve (ds_url it) (joinpath d (ds_filename it)) None,
                    Extractall (joinpath d (ds_filename it)) d None,
                    Unlink (joinpath d (ds_filename it)) out])"
    by (rule setup_movielens_item_shapes)
  show "\<exists>out. performed w (snd (extract_zip env z d n w)) = [Extractall z d out]
          \<and> (fst (extract_zip env z d n w) = Inr True \<longleftrightarrow> out = None)"
    using extract_zip_facts [of env z d n w] by (simp add: performed_def)
next
  let ?z = "joinpath d (ds_filename it)"
  let ?dl = "download_file env (ds_url it) ?z (ds_name it)"
  let ?ex = "extract_zip env ?z d (ds_name it)"
  assume a: "unpopulated (fs w) (joinpath d (ds_extract_dir it))
      \<and> fst (?dl w) = Inr True \<and> fst (?ex (snd (?dl w))) \<noteq> Inr True"
  obtain w1 where dl: "?dl w = (Inr True, w1)" using a by (cases "?dl w") auto
  obtain r2 w2 where ex: "?ex w1 = (r2, w2)" by (cases "?ex w1")
  with a dl have "r2 \<noteq> Inr True" by simp
  then have "snd (setup_movielens_item env d it w) = w2"
    using a dl ex
    by (cases r2) (auto simp: setup_movielens_item_unpopulated andThen_def return_def)
  with dl ex show "snd (setup_movielens_item env d it w) = snd (?ex (snd (?dl w)))" by simp
qed

theorem archive_unlinked_only_after_extraction_witness:
  "performed (start fs_empty) (snd (setup_movielens env_no_credentials (start fs_empty))) =
     [Mkdir [''datasets'', ''MovieLens''] None,
      Urlretrieve ''https://files.grouplens.org/datasets/movielens/ml-1m.zip''
        [''datasets'', ''MovieLens'', ''ml-1m.zip''] None,
      Extractall [''datasets'', ''MovieLens'', ''ml-1m.zip''] [''datasets'', ''MovieLens''] None,
      Unlink [''datasets'', ''MovieLens'', ''ml-1m.zip''] None,
      Urlretrieve ''https://files.grouplens.org/datasets/movielens/ml-25m.zip''
        [''datasets'', ''MovieLens'', ''ml-25m.zip''] None,
      Extractall [''datasets'', ''MovieLens'', ''ml-25m.zip''] [''datasets'', ''MovieLens''] None,
      Unlink [''datasets'', ''MovieLens'', ''ml-25m.zip''] None]
   \<and> unlink_guarded None
        (performed (start fs_empty) (snd (setup_movielens env_no_credentials (start fs_empty))))
   \<and> performed (start fs_empty) (snd (setup_movielens env_corrupt_archive (start fs_empty))) =
     [Mkdir [''datasets'', ''MovieLens''] None,
      Urlretrieve ''https://files.grouplens.org/datasets/movielens/ml-1m.zip''
        [''datasets'', ''MovieLens'', ''ml-1m.zip''] None,
      Extractall [''datasets'', ''MovieLens'', ''ml-1m.zip''] [''datasets'', ''MovieLens'']
        (Some (Exn BadZipFile ''File is not a zip file'')),
      Urlretrieve ''https://files.grouplens.org/datasets/movielens/ml-25m.zip''
        [''datasets'', ''MovieLens'', ''ml-25m.zip''] None,
      Extractall [''datasets'', ''MovieLens'', ''ml-25m.zip''] [''datasets'', ''MovieLens'']
        (Some (Exn BadZipFile ''File is not a zip file''))]
   \<and> unlink_guarded None
        (performed (start fs_empty) (snd (setup_movielens env_corrupt_archive (start fs_empty))))
   \<and> path_exists (fs (snd (setup_movielens env_corrupt_archive (start fs_empty))))
        [''datasets'', ''MovieLens'', ''ml-1m.zip'']
   \<and> unpopulated (fs (start fs_movielens_dir)) (joinpath [''datasets'', ''MovieLens''] (ds_extract_dir movielens_1m))
   \<and> fst (download_file env_corrupt_archive (ds_url movielens_1m)
             (joinpath [''datasets'', ''MovieLens''] (ds_filename movielens_1m))
             (ds_name movielens_1m) (start fs_movielens_dir)) = Inr True
   \<and> fst (extract_zip env_corrupt_archive
             (joinpath [''datasets'', ''MovieLens''] (ds_filename movielens_1m))
             [''datasets'', ''MovieLens''] (ds_name movielens_1m)
             (snd (download_file env_corrupt_archive (ds_url movielens_1m)
                     (joinpath [''datasets'', ''MovieLens''] (ds_filename movielens_1m))
                     (ds_name movielens_1m) (start fs_movielens_dir)))) = Inr False
   \<and> snd (setup_movielens_item env_corrupt_archive [''datasets'', ''MovieLens''] movielens_1m
             (start fs_movielens_dir)) =
       snd (extract_zip env_corrupt_archive
             (joinpath [''datasets'', ''MovieLens''] (ds_filename movielens_1m))
             [''datasets'', ''MovieLens''] (ds_name movielens_1m)
             (snd (download_file env_corrupt_archive (ds_url movielens_1m)
                     (joinpath [''datasets'', ''MovieLens''] (ds_filename movielens_1m))
                     (ds_name movielens_1m) (start fs_movielens_dir))))"
proof -
  have p: "path_exists (fs (snd (setup_movielens env_corrupt_archive (start fs_empty))))
        [''datasets'', ''MovieLens'', ''ml-1m.zip'']"
    using run_movielens_corrupt_archive by (simp add: path_exists_def)
  have u: "unpopulated (fs (start fs_movielens_dir))
             (joinpath [''datasets'', ''MovieLens''] (ds_extract_dir movielens_1m))"
    by (simp add: start_def fs_movielens_dir_def movielens_1m_def movielens_datasets_def
        joinpath_def Path_movielens_items unpopulated_def)
  have d: "fst (download_file env_corrupt_archive (ds_url movielens_1m)
             (joinpath [''datasets'', ''MovieLens''] (ds_filename movielens_1m))
             (ds_name movielens_1m) (start fs_movielens_dir)) = Inr True"
    by (simp add: run_simps fs_movielens_dir_def movielens_1m_def env_corrupt_archive_def
        env_no_credentials_def)
  have e: "fst (extract_zip env_corrupt_archive
             (joinpath [''datasets'', ''MovieLens''] (ds_filename movielens_1m))
             [''datasets'', ''MovieLens''] (ds_name movielens_1m)
             (snd (download_file env_corrupt_archive (ds_url movielens_1m)
                     (joinpath [''datasets'', ''MovieLens''] (ds_filename movielens_1m))
                     (ds_name movielens_1m) (start fs_movielens_dir)))) = Inr False"
    by (simp add: run_simps fs_movielens_dir_def movielens_1m_def env_corrupt_archive_def
        env_no_credentials_def)
  from archive_unlinked_only_after_extraction [where w = "start fs_empty" and env = env_no_credentials]
    archive_unlinked_only_after_extraction [where w = "start fs_empty" and env = env_corrupt_archive]
    archive_unlinked_only_after_extraction [where w = "start fs_movielens_dir"
      and env = env_corrupt_archive and d = "[''datasets'', ''MovieLens'']" and it = movielens_1m]
    run_movielens_downloads run_movielens_corrupt_archive p u d e
  show ?thesis by simp
qed

text \<open>
  C3. Every per-dataset routine is idempotent: for an item whose destination directory
  exists and is non-empty, the routine makes no download and no extraction for that item.
  A turn of the MovieLens loop on a populated destination, \<^verbatim>\<open>check_dataset_exists\<close>, the
  TMDB and MyAnimeList routines and the Netflix routine with both destinations populated
  only print: the filesystem, the trace and the outside state stay as they were.
  \<^verbatim>\<open>setup_movielens\<close> with both destinations populated makes the one call \<^verbatim>\<open>mkdir\<close> on the
  existing \<^verbatim>\<open>datasets/MovieLens\<close> and leaves the filesystem unchanged. When only one of two
  items is populated before the call, no call of the routine belongs to that item (for
  MovieLens 25M, which is tested after the work on MovieLens 1M, provided that work does
  not empty its directory).
\<close>

theorem populated_destination_is_skipped:
  "(populated (fs w) (joinpath d (ds_extract_dir it)) \<longrightarrow>
      fst (setup_movielens_item env d it w) = Inr ()
    \<and> only_printed w (snd (setup_movielens_item env d it w)))
 \<and> (populated (fs w) ([''datasets'', ''MovieLens''] @ [''ml-1m''])
      \<and> populated (fs w) ([''datasets'', ''MovieLens''] @ [''ml-25m'']) \<longrightarrow>
      fst (setup_movielens env w) = Inr ()
    \<and> fs (snd (setup_movielens env w)) = fs w
    \<and> ext (snd (setup_movielens env w)) = ext w
    \<and> performed w (snd (setup_movielens env w)) = [Mkdir [''datasets'', ''MovieLens''] None])
 \<and> (populated (fs w) ([''datasets'', ''MovieLens''] @ [''ml-1m'']) \<longrightarrow>
      list_all (\<lambda>ev. \<not> movielens_event_of [''datasets'', ''MovieLens''] movielens_1m ev)
        (performed w (snd (setup_movielens env w))))
 \<and> (populated (fs w) ([''datasets'', ''MovieLens''] @ [''ml-25m''])
      \<and> keeps_populated env ([''datasets'', ''MovieLens''] @ [''ml-25m'']) \<longrightarrow>
      list_all (\<lambda>ev. \<not> movielens_event_of [''datasets'', ''MovieLens''] movielens_25m ev)
        (performed w (snd (setup_movielens env w))))
 \<and> (populated (fs w) (Path path) \<longrightarrow>
      fst (check_dataset_exists path name w) = Inr True
    \<and> only_printed w (snd (check_dataset_exists path name w)))
 \<and> (populated (fs w) (Path ''datasets/TMDB'') \<longrightarrow>
      fst (setup_tmdb_dataset env has_kaggle w) = Inr ()
    \<and> only_printed w (snd (setup_tmdb_dataset env has_kaggle w)))
 \<and> (populated (fs w) (Path ''datasets/anime'') \<longrightarrow>
      fst (setup_anime_dataset env has_kaggle w) = Inr ()
    \<and> only_printed w (snd (setup_anime_dataset env has_kaggle w)))
 \<and> (populated (fs w) (Path ''datasets/Netflix/netflix'')
      \<and> populated (fs w) (Path ''datasets/Netflix/netflix_prize'') \<longrightarrow>
      fst (setup_netflix_datasets env has_kaggle w) = Inr ()
    \<and> only_printed w (snd (setup_netflix_datasets env has_kaggle w)))
 \<and> (populated (fs w) (Path ''datasets/Netflix/netflix'') \<longrightarrow>
      list_all (\<lambda>ev. \<not> kaggle_event_of ''shivamb/netflix-shows'' ''datasets/Netflix/netflix'' ev)
        (performed w (snd (setup_netflix_datasets env has_kaggle w))))
 \<and> (populated (fs w) (Path ''datasets/Netflix/netflix_prize'') \<longrightarrow>
      list_all (\<lambda>ev. \<not> kaggle_event_of ''netflix-inc/netflix-prize-data'' ''datasets/Netflix/netflix_prize'' ev)
        (performed w (snd (setup_netflix_datasets env has_kaggle w))))"
proof (intro conjI impI)
  assume "populated (fs w) (joinpath d (ds_extract_dir it))"
  note r = setup_movielens_item_skip [OF this, of env]
  show "fst (setup_movielens_item env d it w) = Inr ()" by (simp add: r)
  show "only_printed w (snd (setup_movielens_item env d it w))" by (simp add: r)
next
  assume a: "populated (fs w) ([''datasets'', ''MovieLens''] @ [''ml-1m''])
      \<and> populated (fs w) ([''datasets'', ''MovieLens''] @ [''ml-25m''])"
  then have r: "setup_movielens env w =
     (Inr (), w\<lparr>stdout := stdout w @
            [newline @ replicate 70 CHR ''='' @ newline,
             center 70 ''MovieLens Datasets'' @ newline,
             replicate 70 CHR ''='' @ newline @ newline,
             ''[WARNING] MovieLens 1M already exists. Skipping...'' @ newline,
             ''[WARNING] MovieLens 25M already exists. Skipping...'' @ newline],
          trace := trace w @ [Mkdir [''datasets'', ''MovieLens''] None]\<rparr>)"
    by (intro setup_movielens_all_populated) simp_all
  show "fst (setup_movielens env w) = Inr ()" by (simp add: r)
  show "fs (snd (setup_movielens env w)) = fs w" by (simp add: r)
  show "ext (snd (setup_movielens env w)) = ext w" by (simp add: r)
  show "performed w (snd (setup_movielens env w)) = [Mkdir [''datasets'', ''MovieLens''] None]"
    by (simp add: r performed_def)
next
  assume "populated (fs w) ([''datasets'', ''MovieLens''] @ [''ml-1m''])"
  then show "list_all (\<lambda>ev. \<not> movielens_event_of [''datasets'', ''MovieLens''] movielens_1m ev)
        (performed w (snd (setup_movielens env w)))"
    by (rule setup_movielens_first_populated)
next
  assume "populated (fs w) ([''datasets'', ''MovieLens''] @ [''ml-25m''])
      \<and> keeps_populated env ([''datasets'', ''MovieLens''] @ [''ml-25m''])"
  then show "list_all (\<lambda>ev. \<not> movielens_event_of [''datasets'', ''MovieLens''] movielens_25m ev)
        (performed w (snd (setup_movielens env w)))"
    by (intro setup_movielens_second_populated) simp_all
next
  assume "populated (fs w) (Path path)"
  note r = check_dataset_exists_populated [OF this, of name]
  show "fst (check_dataset_exists path name w) = Inr True" by (simp add: r)
  show "only_printed w (snd (check_dataset_exists path name w))" by (simp add: r)
next
  assume "populated (fs w) (Path ''datasets/TMDB'')"
  note r = setup_tmdb_dataset_skip [OF this, of env has_kaggle]
  show "fst (setup_tmdb_dataset env has_kaggle w) = Inr ()" by (simp add: r)
  show "only_printed w (snd (setup_tmdb_dataset env has_kaggle w))" by (simp add: r)
next
  assume "populated (fs w) (Path ''datasets/anime'')"
  note r = setup_anime_dataset_skip [OF this, of env has_kaggle]
  show "fst (setup_anime_dataset env has_kaggle w) = Inr ()" by (simp add: r)
  show "only_printed w (snd (setup_anime_dataset env has_kaggle w))" by (simp add: r)
next
  assume a: "populated (fs w) (Path ''datasets/Netflix/netflix'')
      \<and> populated (fs w) (Path ''datasets/Netflix/netflix_prize'')"
  then have r: "setup_netflix_datasets env has_kaggle w =
     (Inr (), w\<lparr>stdout := stdout w @
        [newline @ replicate 70 CHR ''='' @ newline,
         center 70 ''Netflix Datasets'' @ newline,
         replicate 70 CHR ''='' @ newline @ newline,
         ''[OK] Netflix Shows: Already exists'' @ newline,
         ''[OK] Netflix Prize: Already exists'' @ newline]\<rparr>)"
    by (intro setup_netflix_datasets_skip) simp_all
  show "fst (setup_netflix_datasets env has_kaggle w) = Inr ()" by (simp add: r)
  show "only_printed w (snd (setup_netflix_datasets env has_kaggle w))" by (simp add: r)
next
  assume "populated (fs w) (Path ''datasets/Netflix/netflix'')"
  then show "list_all (\<lambda>ev. \<not> kaggle_event_of ''shivamb/netflix-shows'' ''datasets/Netflix/netflix'' ev)
        (performed w (snd (setup_netflix_datasets env has_kaggle w)))"
    by (rule setup_netflix_datasets_shows_populated)
next
  assume "populated (fs w) (Path ''datasets/Netflix/netflix_prize'')"
  then show "list_all (\<lambda>ev. \<not> kaggle_event_of ''netflix-inc/netflix-prize-data'' ''datasets/Netflix/netflix_prize'' ev)
        (performed w (snd (setup_netflix_datasets env has_kaggle w)))"
    by (rule setup_netflix_datasets_prize_populated)
qed

theorem populated_destination_is_skipped_witness:
  "populated (fs (start fs_complete)) ([''datasets'', ''MovieLens''] @ [''ml-1m''])
   \<and> populated (fs (start fs_complete)) ([''datasets'', ''MovieLens''] @ [''ml-25m''])
   \<and> fst (setup_movielens env_online (start fs_complete)) = Inr ()
   \<and> fs (snd (setup_movielens env_online (start fs_complete))) = fs (start fs_complete)
   \<and> performed (start fs_complete) (snd (setup_movielens env_online (start fs_complete)))
       = [Mkdir [''datasets'', ''MovieLens''] None]
   \<and> populated (fs (start fs_complete)) (Path ''datasets/TMDB'')
   \<and> only_printed (start fs_complete) (snd (setup_tmdb_dataset env_online True (start fs_complete)))
   \<and> populated (fs (start fs_complete)) (Path ''datasets/anime'')
   \<and> only_printed (start fs_complete) (snd (setup_anime_dataset env_online True (start fs_complete)))
   \<and> populated (fs (start fs_complete)) (Path ''datasets/Netflix/netflix'')
   \<and> populated (fs (start fs_complete)) (Path ''datasets/Netflix/netflix_prize'')
   \<and> only_printed (start fs_complete) (snd (setup_netflix_datasets env_online True (start fs_complete)))
   \<and> populated (fs (start fs_movielens_25m)) ([''datasets'', ''MovieLens''] @ [''ml-25m''])
   \<and> keeps_populated env_offline ([''datasets'', ''MovieLens''] @ [''ml-25m''])
   \<and> list_all (\<lambda>ev. \<not> movielens_event_of [''datasets'', ''MovieLens''] movielens_25m ev)
        (performed (start fs_movielens_25m) (snd (setup_movielens env_offline (start fs_movielens_25m))))"
proof -
  have p: "populated (fs (start fs_movielens_25m)) ([''datasets'', ''MovieLens''] @ [''ml-25m''])"
    by (simp add: start_def fs_movielens_25m_def populated_def)
  from populated_destination_is_skipped [where w = "start fs_complete" and env = env_online
      and has_kaggle = True]
    populated_destination_is_skipped [where w = "start fs_movielens_25m" and env = env_offline]
    complete_populated p env_offline_keeps_populated [of "[''datasets'', ''MovieLens''] @ [''ml-25m'']"]
  show ?thesis by simp
qed




text \<open>
  C7. For every run that terminates normally the exit status is 0, whatever the
  verification found. The status of the script is 0 when \<^verbatim>\<open>main\<close> returns;
  \<^verbatim>\<open>main\<close> is its setup part, then \<^verbatim>\<open>verify_datasets\<close>, then the summary, and the summary
  returns normally for either result of the verification; a run that returns has printed
  \<^verbatim>\<open>All datasets are ready!\<close> when every marker exists and \<^verbatim>\<open>Some datasets are missing.\<close>
  when one does not, with status 0 in both cases.
\<close>

theorem exit_status_zero_whatever_verification:
  "(fst (main env w) = Inr () \<longrightarrow> script env w = 0)
 \<and> main env = andThen (main_setup env) (\<lambda>has_kaggle.
               andThen verify_datasets (\<lambda>all_present. main_summary has_kaggle all_present))
 \<and> fst (main_summary has_kaggle all_present w) = Inr ()
 \<and> (fst (main env w) = Inr () \<and> all_markers (fs (snd (main env w))) \<longrightarrow>
      (''[OK] All datasets are ready!'' @ newline) \<in> set (printed w (snd (main env w))))
 \<and> (fst (main env w) = Inr () \<and> \<not> all_markers (fs (snd (main env w))) \<longrightarrow>
      (''[WARNING] Some datasets are missing.'' @ newline) \<in> set (printed w (snd (main env w))))"
proof (intro conjI impI)
  show "script env w = 0" if "fst (main env w) = Inr ()"
    using that by (simp add: script_def exit_status_def)
  show "main env = andThen (main_setup env) (\<lambda>has_kaggle.
               andThen verify_datasets (\<lambda>all_present. main_summary has_kaggle all_present))"
    by (rule main_decomposed)
  show "fst (main_summary has_kaggle all_present w) = Inr ()"
    by (rule main_summary_returns)
next
  assume "fst (main env w) = Inr () \<and> all_markers (fs (snd (main env w)))"
  with main_returns [of env w]
  show "(''[OK] All datasets are ready!'' @ newline) \<in> set (printed w (snd (main env w)))"
    by simp
next
  assume "fst (main env w) = Inr () \<and> \<not> all_markers (fs (snd (main env w)))"
  with main_returns [of env w]
  show "(''[WARNING] Some datasets are missing.'' @ newline) \<in> set (printed w (snd (main env w)))"
    by simp
qed

theorem exit_status_zero_whatever_verification_witness:
  "fst (main env_online (start fs_empty)) = Inr ()
   \<and> all_markers (fs (snd (main env_online (start fs_empty))))
   \<and> script env_online (start fs_empty) = 0
   \<and> (''[OK] All datasets are ready!'' @ newline)
        \<in> set (printed (start fs_empty) (snd (main env_online (start fs_empty))))
   \<and> fst (main env_offline (start fs_empty)) = Inr ()
   \<and> \<not> all_markers (fs (snd (main env_offline (start fs_empty))))
   \<and> script env_offline (start fs_empty) = 0
   \<and> (''[WARNING] Some datasets are missing.'' @ newline)
        \<in> set (printed (start fs_empty) (snd (main env_offline (start fs_empty))))"
proof -
  have a: "all_markers (fs (snd (main env_online (start fs_empty))))"
    using run_main_online
    by (simp add: all_markers_def required_files_def Path_markers Path_destinations path_exists_def)
  have b: "\<not> all_markers (fs (snd (main env_offline (start fs_empty))))"
    using run_main_offline
    by (simp add: all_markers_def required_files_def Path_markers Path_destinations path_exists_def)
  note on = exit_status_zero_whatever_verification [where env = env_online and w = "start fs_empty"]
  note off = exit_status_zero_whatever_verification [where env = env_offline and w = "start fs_empty"]
  from on have on1: "fst (main env_online (start fs_empty)) = Inr ()
      \<longrightarrow> script env_online (start fs_empty) = 0"
    by (rule conjunct1)
  from on have on2: "fst (main env_online (start fs_empty)) = Inr ()
      \<and> all_markers (fs (snd (main env_online (start fs_empty)))) \<longrightarrow>
      (''[OK] All datasets are ready!'' @ newline)
        \<in> set (printed (start fs_empty) (snd (main env_online (start fs_empty))))"
    by blast
  from off have off1: "fst (main env_offline (start fs_empty)) = Inr ()
      \<longrightarrow> script env_offline (start fs_empty) = 0"
    by (rule conjunct1)
  from off have off2: "fst (main env_offline (start fs_empty)) = Inr ()
      \<and> \<not> all_markers (fs (snd (main env_offline (start fs_empty)))) \<longrightarrow>
      (''[WARNING] Some datasets are missing.'' @ newline)
        \<in> set (printed (start fs_empty) (snd (main env_offline (start fs_empty))))"
    by blast
  have r1: "fst (main env_online (start fs_empty)) = Inr ()" using run_main_online by blast
  have r2: "fst (main env_offline (start fs_empty)) = Inr ()" using run_main_offline by blast
  from on1 on2 off1 off2 r1 r2 a b show ?thesis by blast
qed

end
